theory Spec2Isabelle
  imports Main
begin

section \<open>JavaScript values and objects\<close>

text \<open>
  The values that flow through the session store and the job wizard: \<open>undefined\<close>,
  \<open>null\<close>, strings and booleans. Identifiers, messages, species names and positions are
  strings (a position reaches the form as the string value of an \<open>option\<close> element).
\<close>

datatype jsval = Undefined | Null | Str string | Bool bool

text \<open>Truthiness, as used by \<open>!x\<close>, \<open>x || y\<close>, \<open>x && y\<close> and \<open>if (x)\<close>.\<close>

fun truthy :: "jsval \<Rightarrow> bool" where
  "truthy Undefined = False"
| "truthy Null = False"
| "truthy (Str s) = (s \<noteq> [])"
| "truthy (Bool b) = b"

text \<open>\<open>a || b\<close>.\<close>

definition or_else :: "jsval \<Rightarrow> jsval \<Rightarrow> jsval" where
  "or_else a b = (if truthy a then a else b)"

text \<open>String conversion, as done by a template literal and by \<open>new Error(x)\<close>.\<close>

fun toString :: "jsval \<Rightarrow> string" where
  "toString Undefined = ''undefined''"
| "toString Null = ''null''"
| "toString (Str s) = s"
| "toString (Bool b) = (if b then ''true'' else ''false'')"

text \<open>
  An object is a finite map from property names to values; reading a property that is
  absent gives \<open>undefined\<close>. The spread \<open>{...o, k: v}\<close> is the map update \<open>o(k \<mapsto> v)\<close>.
\<close>

type_synonym obj = "string \<rightharpoonup> jsval"

definition get :: "obj \<Rightarrow> string \<Rightarrow> jsval" where
  "get ob k = (case ob k of None \<Rightarrow> Undefined | Some v \<Rightarrow> v)"

section \<open>Session store: \<open>logout\<close> (AuthContext)\<close>

record auth_state =
  currentUser :: "jsval option"
  loading :: bool

record auth_result =
  success :: bool
  message :: jsval

text \<open>
  What \<open>await axios.post('/api/auth/logout', ...)\<close> can do: resolve with a response whose
  \<open>data\<close> is \<open>null\<close> or an object (any 2xx answer, also one whose body says
  \<open>status: "error"\<close>), or reject (no answer, or an answer outside 2xx).
\<close>

datatype axios_outcome = Resolved "obj option" | Rejected

definition logoutLocalMessage :: string where
  "logoutLocalMessage =
     ''You have been logged out locally. There was an issue communicating with the server.''"

text \<open>
  \<open>logout\<close>: in the \<open>try\<close> block \<open>setCurrentUser(null)\<close> runs before
  \<open>response.data.message\<close> is read, so a \<open>null\<close> body (a TypeError at that read)
  ends in the \<open>catch\<close> block with the user already cleared.
\<close>

definition logout :: "auth_state \<Rightarrow> axios_outcome \<Rightarrow> auth_state \<times> auth_result" where
  "logout st r =
     (case r of
        Resolved (Some data) \<Rightarrow>
          (st\<lparr>currentUser := None\<rparr>,
           \<lparr>success = True,
            message = or_else (get data ''message'') (Str ''Successfully logged out'')\<rparr>)
      | Resolved None \<Rightarrow>
          (st\<lparr>currentUser := None\<rparr>, \<lparr>success = True, message = Str logoutLocalMessage\<rparr>)
      | Rejected \<Rightarrow>
          (st\<lparr>currentUser := None\<rparr>, \<lparr>success = True, message = Str logoutLocalMessage\<rparr>))"

section \<open>Job wizard: data\<close>

text \<open>The keys of \<open>JOB_TYPES\<close> (StepJobType); \<open>jobType\<close> is one of them or null.\<close>

datatype job_type = molecule | standardFibril | mixedFibril | reducedFibril

text \<open>
  \<open>formData\<close> of JobWizard. \<open>jobName\<close> and \<open>description\<close> start as the empty string
  and are only ever replaced by the string value of an input element; \<open>parameters\<close> starts
  as the empty object.
\<close>

record form_data =
  jobName :: string
  description :: string
  parameters :: obj

text \<open>One row of the crosslink reference data (\<open>position\<close> may be null).\<close>

record crosslink =
  species :: string
  res_terminal :: string
  ctype :: string
  position :: "string option"

text \<open>The component state of MoleculeParams (its five \<open>useState\<close> cells).\<close>

record molecule_panel =
  panel_error :: "string option"
  isLoading :: bool
  availableSpecies :: "string list"
  crosslinkData :: "crosslink list option"
  inputMethod :: jsval

text \<open>
  The state of JobWizard (its five \<open>useState\<close> cells), together with what the model
  keeps of its surroundings: the MoleculeParams instance while one is mounted, the bodies
  of the POST requests sent to \<open>/jobs/submit\<close> so far (latest first), the number of those
  requests still outstanding, and the address assigned to \<open>window.location.href\<close>, if any.
\<close>

record wizard =
  currentStep :: int
  jobType :: "job_type option"
  formData :: form_data
  error :: "string option"
  isSubmitting :: bool
  panel :: "molecule_panel option"
  submitted :: "(job_type option \<times> form_data) list"
  inFlight :: nat
  location :: "string option"

definition initial :: wizard where
  "initial =
     \<lparr>currentStep = 0, jobType = None,
      formData = \<lparr>jobName = [], description = [], parameters = Map.empty\<rparr>,
      error = None, isSubmitting = False, panel = None, submitted = [], inFlight = 0,
      location = None\<rparr>"

section \<open>Job wizard: the controller (JobWizard)\<close>

definition STEPS :: "string list" where
  "STEPS = [''Select Type'', ''Basic Info'', ''Parameters'', ''Review'']"

text \<open>The updater functions passed to \<open>setCurrentStep\<close>.\<close>

definition handleNext :: "int \<Rightarrow> int" where
  "handleNext prev = min (prev + 1) (int (length STEPS) - 1)"

definition handlePrevious :: "int \<Rightarrow> int" where
  "handlePrevious prev = max (prev - 1) 0"

text \<open>
  A MoleculeParams instance as it is right after mounting: the initial values of its
  state cells, with the loading of the reference data started by its effect.
\<close>

definition mountMoleculeParams :: "obj \<Rightarrow> molecule_panel" where
  "mountMoleculeParams fd =
     \<lparr>panel_error = None, isLoading = True, availableSpecies = [], crosslinkData = None,
      inputMethod = or_else (get fd ''inputMethod'') (Str ''species'')\<rparr>"

text \<open>
  \<open>setCurrentStep\<close> followed by the re-rendering: \<open>renderStep\<close> shows StepParameters
  at step 2 only, and StepParameters shows MoleculeParams for the job type
  \<open>molecule\<close> only. The instance keeps its state while it stays mounted, is dropped when
  another step is rendered, and is a fresh one when step 2 is entered.
\<close>

definition setCurrentStep :: "(int \<Rightarrow> int) \<Rightarrow> wizard \<Rightarrow> wizard" where
  "setCurrentStep f s =
     (let n = f (currentStep s) in
      s\<lparr>currentStep := n,
        panel :=
          (if n = 2 \<and> jobType s = Some molecule then
             (if currentStep s = 2 then panel s
              else Some (mountMoleculeParams (parameters (formData s))))
           else None)\<rparr>)"

text \<open>
  \<open>handleSubmit\<close> of JobWizard runs in two parts. Up to \<open>await fetch(...)\<close> it runs
  inside the click: the in-flight flag is set, the error cleared and the request sent,
  with the body \<open>{job_type: jobType, ...formData}\<close>.
\<close>

definition submitStart :: "wizard \<Rightarrow> wizard" where
  "submitStart s =
     s\<lparr>isSubmitting := True, error := None,
       submitted := (jobType s, formData s) # submitted s,
       inFlight := Suc (inFlight s)\<rparr>"

text \<open>
  What the request can do. \<open>fetch\<close> rejects with an error message, or resolves with a
  response of some HTTP status; then \<open>response.json()\<close> rejects with a message, or gives
  null (reading a property of it throws a TypeError, whose message is the engine's), or
  gives a value whose properties can be read.
\<close>

datatype json_result = JsonThrows string | JsonNull string | JsonObject obj

datatype fetch_outcome = FetchRejected string | FetchResponse nat json_result

text \<open>\<open>response.ok\<close>: the status is in the range 200 to 299.\<close>

definition ok :: "nat \<Rightarrow> bool" where
  "ok st = (200 \<le> st \<and> st \<le> 299)"

text \<open>
  The rest of \<open>handleSubmit\<close>, run when the request settles: the \<open>catch\<close> block stores
  the message of whatever was thrown, the \<open>finally\<close> block clears the in-flight flag.
\<close>

definition submitSettle :: "fetch_outcome \<Rightarrow> wizard \<Rightarrow> wizard" where
  "submitSettle r s =
     (case r of
        FetchRejected m \<Rightarrow>
          s\<lparr>error := Some m, isSubmitting := False, inFlight := inFlight s - 1\<rparr>
      | FetchResponse st (JsonThrows m) \<Rightarrow>
          s\<lparr>error := Some m, isSubmitting := False, inFlight := inFlight s - 1\<rparr>
      | FetchResponse st (JsonNull m) \<Rightarrow>
          s\<lparr>error := Some m, isSubmitting := False, inFlight := inFlight s - 1\<rparr>
      | FetchResponse st (JsonObject data) \<Rightarrow>
          (if \<not> ok st then
             s\<lparr>error :=
                 Some (toString (or_else (get data ''message'') (Str ''Failed to submit job''))),
               isSubmitting := False, inFlight := inFlight s - 1\<rparr>
           else
             s\<lparr>location := Some (''/jobs/status/'' @ toString (get data ''job_id'')),
               isSubmitting := False, inFlight := inFlight s - 1\<rparr>))"

text \<open>The Submit button of StepReview.\<close>

definition submitDisabled :: "wizard \<Rightarrow> bool" where
  "submitDisabled s = isSubmitting s"

definition submitLabel :: "wizard \<Rightarrow> string" where
  "submitLabel s = (if isSubmitting s then ''Submitting...'' else ''Submit Job'')"

section \<open>Job wizard: the molecule parameter panel (MoleculeParams)\<close>

text \<open>\<open>[...new Set(xs)]\<close>: the distinct elements in the order of their first occurrence.\<close>

definition uniq :: "'a list \<Rightarrow> 'a list" where
  "uniq xs = rev (remdups (rev xs))"

record terminal_data =
  types :: "string list"
  positions :: "string \<rightharpoonup> string list"

definition processTerminalData :: "crosslink list \<Rightarrow> terminal_data" where
  "processTerminalData rows =
     (let ts = uniq (map ctype rows) in
      \<lparr>types = ts,
       positions =
         (\<lambda>t. if t \<in> set ts then
                Some (uniq (map the (filter (\<lambda>pos. pos \<noteq> None)
                  (map position (filter (\<lambda>item. ctype item = t) rows)))))
              else None)\<rparr>)"

record species_data =
  n_terminal :: terminal_data
  c_terminal :: terminal_data

definition getSpeciesCrosslinkData ::
  "crosslink list option \<Rightarrow> jsval \<Rightarrow> species_data option" where
  "getSpeciesCrosslinkData cd sp =
     (case cd of
        None \<Rightarrow> None
      | Some rows \<Rightarrow>
          if \<not> truthy sp then None
          else
            (let speciesData = filter (\<lambda>item. Str (species item) = sp) rows;
                 nTerminalData = filter (\<lambda>item. res_terminal item = ''LYS-N'') speciesData;
                 cTerminalData = filter (\<lambda>item. res_terminal item = ''LYS-C'') speciesData
             in Some \<lparr>n_terminal = processTerminalData nTerminalData,
                      c_terminal = processTerminalData cTerminalData\<rparr>))"

text \<open>
  What the loading of the reference data can do: \<open>fetchWithAuth\<close> or \<open>response.json()\<close>
  throws (with a message), the response is not \<open>ok\<close> (with its status code, as text), or
  a body arrives.
\<close>

record load_body =
  body_status :: jsval
  body_message :: jsval
  body_species :: "string list option"
  body_crosslinks :: "crosslink list option"

datatype load_outcome = LoadThrows string | LoadNotOk string | LoadBody load_body

definition loadData :: "load_outcome \<Rightarrow> molecule_panel \<Rightarrow> molecule_panel" where
  "loadData r p =
     (case r of
        LoadThrows m \<Rightarrow>
          p\<lparr>panel_error := Some (''Failed to load required data: '' @ m), isLoading := False\<rparr>
      | LoadNotOk st \<Rightarrow>
          p\<lparr>panel_error :=
              Some (''Failed to load required data: '' @ ''Server responded with status: '' @ st),
            isLoading := False\<rparr>
      | LoadBody d \<Rightarrow>
          (if body_status d = Str ''success'' then
             p\<lparr>availableSpecies := (case body_species d of None \<Rightarrow> [] | Some xs \<Rightarrow> xs),
               crosslinkData := body_crosslinks d,
               isLoading := False\<rparr>
           else
             p\<lparr>panel_error :=
                 Some (''Failed to load required data: ''
                       @ toString (or_else (body_message d) (Str ''Failed to load data''))),
               isLoading := False\<rparr>))"

text \<open>
  \<open>handleInputMethodChange\<close>: the new parameters object passed to \<open>onChange\<close> and the
  panel with its \<open>inputMethod\<close> cell set.
\<close>

definition handleInputMethodChange ::
  "string \<Rightarrow> obj \<Rightarrow> molecule_panel \<Rightarrow> obj \<times> molecule_panel" where
  "handleInputMethodChange v fd p =
     (fd(''inputMethod'' \<mapsto> Str v,
         ''enableCrosslinks'' \<mapsto> Bool False,
         ''nTerminalType'' \<mapsto> Str ''NONE'',
         ''cTerminalType'' \<mapsto> Str ''NONE'',
         ''nTerminalPosition'' \<mapsto> Null,
         ''cTerminalPosition'' \<mapsto> Null,
         ''species'' \<mapsto> (if v = ''custom'' then Null else get fd ''species''),
         ''chainA'' \<mapsto> (if v = ''species'' then Null else get fd ''chainA''),
         ''chainB'' \<mapsto> (if v = ''species'' then Null else get fd ''chainB''),
         ''chainC'' \<mapsto> (if v = ''species'' then Null else get fd ''chainC'')),
      p\<lparr>inputMethod := Str v\<rparr>)"

text \<open>
  \<open>validateSequence\<close>. The regular expression \<open>/^[ABCDEFGHIKLMNOPQRSTUVWXYZ-]+$/\<close> accepts
  the non-empty strings made of the listed characters only. Every listed character is one
  unit of a JavaScript string, and a string with any other character is rejected whatever
  its length, so counting characters decides the same strings.
\<close>

definition alphabet :: string where
  "alphabet = ''ABCDEFGHIKLMNOPQRSTUVWXYZ-''"

fun validateSequence :: "jsval \<Rightarrow> bool" where
  "validateSequence (Str sequence) =
     (if sequence = [] then False
      else if length sequence < 950 \<or> length sequence > 1150 then False
      else sequence \<noteq> [] \<and> list_all (\<lambda>c. c \<in> set alphabet) sequence)"
| "validateSequence _ = False"

definition sequences :: "string list" where
  "sequences = [''chainA'', ''chainB'', ''chainC'']"

definition chainError :: "string \<Rightarrow> string" where
  "chainError chain =
     ''Invalid sequence for '' @ chain
       @ ''. Length must be between 950-1150 and contain only valid amino acids.''"

text \<open>The \<open>for\<close> loop of \<open>handleSubmit\<close>: the first chain that fails, if any.\<close>

fun firstInvalid :: "obj \<Rightarrow> string list \<Rightarrow> string option" where
  "firstInvalid fd [] = None"
| "firstInvalid fd (chain # rest) =
     (if \<not> validateSequence (get fd chain) then Some chain else firstInvalid fd rest)"

text \<open>
  \<open>handleSubmit\<close> of MoleculeParams, the handler of its Next button. The result is the
  message given to \<open>setError\<close> on an early return, or \<open>None\<close> when the end is reached
  (\<open>setError(null)\<close>, then \<open>onNext()\<close>).
\<close>

definition MoleculeParams_handleSubmit :: "obj \<Rightarrow> jsval \<Rightarrow> string option" where
  "MoleculeParams_handleSubmit fd method =
     (case (if method = Str ''species'' then
              (if \<not> truthy (get fd ''species'') then Some ''Please select a species'' else None)
            else map_option chainError (firstInvalid fd sequences)) of
        Some e \<Rightarrow> Some e
      | None \<Rightarrow>
          if truthy (get fd ''enableCrosslinks'') then
            (if get fd ''nTerminalType'' \<noteq> Str ''NONE'' \<and> \<not> truthy (get fd ''nTerminalPosition'')
             then Some ''Please select N-terminal position''
             else if get fd ''cTerminalType'' \<noteq> Str ''NONE''
                     \<and> \<not> truthy (get fd ''cTerminalPosition'')
             then Some ''Please select C-terminal position''
             else None)
          else None)"

text \<open>
  \<open>handleCrosslinkChange(terminal, type, position = null)\<close>: the default replaces an
  argument that is missing or \<open>undefined\<close>.
\<close>

definition handleCrosslinkChange :: "obj \<Rightarrow> string \<Rightarrow> jsval \<Rightarrow> jsval \<Rightarrow> obj" where
  "handleCrosslinkChange fd terminal type arg =
     (let position = (if arg = Undefined then Null else arg);
          updates = fd(terminal @ ''TerminalType'' \<mapsto> type)
      in if position \<noteq> Undefined then updates(terminal @ ''TerminalPosition'' \<mapsto> position)
         else if type = Str ''NONE'' then updates(terminal @ ''TerminalPosition'' \<mapsto> Null)
         else updates)"

text \<open>
  Strings. A string of the model stands for a JavaScript string unit by unit: a unit
  below 128 (ASCII) is that character, any other UTF-16 unit is some character from 128
  on. So \<open>length\<close> is the \<open>length\<close> of the JavaScript string, and a character from
  128 on says only that the unit is not ASCII.
\<close>

definition ascii :: "string \<Rightarrow> bool" where
  "ascii t = list_all (\<lambda>c. (of_char c :: nat) < 128) t"

text \<open>
  \<open>String.prototype.toUpperCase\<close> is a library function. On an ASCII string it
  replaces the letters a to z by A to Z and keeps every other character. On other
  strings it can also change the length (U+00DF becomes \<open>SS\<close>) and can produce ASCII
  letters from other units; the model leaves its result on such a string open.
\<close>

definition lowerCase :: string where
  "lowerCase = ''abcdefghijklmnopqrstuvwxyz''"

definition upperCase :: string where
  "upperCase = ''ABCDEFGHIJKLMNOPQRSTUVWXYZ''"

definition toUpperCaseChar :: "char \<Rightarrow> char" where
  "toUpperCaseChar c = (case map_of (zip lowerCase upperCase) c of None \<Rightarrow> c | Some u \<Rightarrow> u)"

definition toUpperCaseASCII :: "string \<Rightarrow> string" where
  "toUpperCaseASCII = map toUpperCaseChar"

text \<open>\<open>toUpperCaseGives typed u\<close>: \<open>u\<close> can be the value of \<open>typed.toUpperCase()\<close>.\<close>

definition toUpperCaseGives :: "string \<Rightarrow> string \<Rightarrow> bool" where
  "toUpperCaseGives typed u = (if ascii typed then u = toUpperCaseASCII typed else True)"

section \<open>Job wizard: what is on screen, and the user's actions\<close>

text \<open>
  MoleculeParams renders a spinner while \<open>isLoading\<close>, only the error box while
  \<open>error\<close> is truthy, and its form (inputs, Previous and Next) otherwise.
\<close>

definition formShown :: "molecule_panel \<Rightarrow> bool" where
  "formShown p =
     (\<not> isLoading p \<and> \<not> (case panel_error p of None \<Rightarrow> False | Some e \<Rightarrow> e \<noteq> []))"

definition moleculeForm :: "wizard \<Rightarrow> molecule_panel option" where
  "moleculeForm s =
     (case panel s of
        None \<Rightarrow> None
      | Some p \<Rightarrow>
          if currentStep s = 2 \<and> jobType s = Some molecule \<and> formShown p then Some p else None)"

text \<open>\<open>renderCrosslinkOptions\<close>: the reference data behind the crosslink selects, if shown.\<close>

definition renderCrosslinkOptions :: "obj \<Rightarrow> molecule_panel \<Rightarrow> species_data option" where
  "renderCrosslinkOptions fd p =
     (if \<not> truthy (get fd ''enableCrosslinks'') \<or> \<not> truthy (get fd ''species'') then None
      else getSpeciesCrosslinkData (crosslinkData p) (get fd ''species''))"

definition terminalOf :: "string \<Rightarrow> species_data \<Rightarrow> terminal_data" where
  "terminalOf terminal sd = (if terminal = ''n'' then n_terminal sd else c_terminal sd)"

text \<open>The \<open>onChange\<close> given to a parameter panel by StepParameters.\<close>

definition setParameters :: "obj \<Rightarrow> wizard \<Rightarrow> wizard" where
  "setParameters params s = s\<lparr>formData := (formData s)\<lparr>parameters := params\<rparr>\<rparr>"

text \<open>\<open>handleChange(field)\<close> of StepBasicInfo, for its two inputs.\<close>

definition handleChange :: "string \<Rightarrow> string \<Rightarrow> form_data \<Rightarrow> form_data" where
  "handleChange field v fd =
     (if field = ''jobName'' then fd\<lparr>jobName := v\<rparr>
      else if field = ''description'' then fd\<lparr>description := v\<rparr>
      else fd)"

text \<open>
  Each action below is one event handled by the page: it changes the state only when its
  control is rendered at the current step and is not disabled.
\<close>

text \<open>StepJobType: a click on a card, and the Continue button (\<open>disabled={!selectedType}\<close>).\<close>

definition selectJobType :: "job_type \<Rightarrow> wizard \<Rightarrow> wizard" where
  "selectJobType t s = (if currentStep s = 0 then s\<lparr>jobType := Some t\<rparr> else s)"

definition clickContinue :: "wizard \<Rightarrow> wizard" where
  "clickContinue s =
     (if currentStep s = 0 \<and> jobType s \<noteq> None then setCurrentStep handleNext s else s)"

text \<open>StepBasicInfo: typing into Job Name or Description.\<close>

definition editBasicInfo :: "string \<Rightarrow> string \<Rightarrow> wizard \<Rightarrow> wizard" where
  "editBasicInfo field v s =
     (if currentStep s = 1 \<and> (field = ''jobName'' \<or> field = ''description'')
      then s\<lparr>formData := handleChange field v (formData s)\<rparr> else s)"

text \<open>
  The Next button: of StepBasicInfo (\<open>disabled={!formData.jobName}\<close>), of MoleculeParams
  (\<open>handleSubmit\<close>), and of the three fibril panels (\<open>onNext\<close> directly). StepReview has
  none, and StepParameters renders no button when the job type is null.
\<close>

definition clickNext :: "wizard \<Rightarrow> wizard" where
  "clickNext s =
     (if currentStep s = 1 then
        (if jobName (formData s) \<noteq> [] then setCurrentStep handleNext s else s)
      else if currentStep s = 2 then
        (case jobType s of
           None \<Rightarrow> s
         | Some molecule \<Rightarrow>
             (case moleculeForm s of
                None \<Rightarrow> s
              | Some p \<Rightarrow>
                  (case MoleculeParams_handleSubmit (parameters (formData s)) (inputMethod p) of
                     Some e \<Rightarrow> s\<lparr>panel := Some (p\<lparr>panel_error := Some e\<rparr>)\<rparr>
                   | None \<Rightarrow>
                       setCurrentStep handleNext (s\<lparr>panel := Some (p\<lparr>panel_error := None\<rparr>)\<rparr>)))
         | Some _ \<Rightarrow> setCurrentStep handleNext s)
      else s)"

text \<open>
  The Previous button: of StepBasicInfo, of MoleculeParams (part of its form), of the
  fibril panels and of StepReview; never disabled where it is rendered.
\<close>

definition clickPrevious :: "wizard \<Rightarrow> wizard" where
  "clickPrevious s =
     (if currentStep s = 1 \<or> currentStep s = 3 then setCurrentStep handlePrevious s
      else if currentStep s = 2 then
        (case jobType s of
           None \<Rightarrow> s
         | Some molecule \<Rightarrow>
             (case moleculeForm s of
                None \<Rightarrow> s
              | Some p \<Rightarrow> setCurrentStep handlePrevious s)
         | Some _ \<Rightarrow> setCurrentStep handlePrevious s)
      else s)"

text \<open>StepReview: the Submit button (\<open>disabled={isSubmitting}\<close>), and the request settling.\<close>

definition clickSubmit :: "wizard \<Rightarrow> wizard" where
  "clickSubmit s = (if currentStep s = 3 \<and> \<not> submitDisabled s then submitStart s else s)"

definition submitSettled :: "fetch_outcome \<Rightarrow> wizard \<Rightarrow> wizard" where
  "submitSettled r s = (if 0 < inFlight s then submitSettle r s else s)"

text \<open>MoleculeParams: the loading of the reference data settling.\<close>

definition loadSettled :: "load_outcome \<Rightarrow> wizard \<Rightarrow> wizard" where
  "loadSettled r s =
     (case panel s of
        None \<Rightarrow> s
      | Some p \<Rightarrow> if isLoading p then s\<lparr>panel := Some (loadData r p)\<rparr> else s)"

text \<open>MoleculeParams: the two radio buttons.\<close>

definition chooseInputMethod :: "string \<Rightarrow> wizard \<Rightarrow> wizard" where
  "chooseInputMethod v s =
     (case moleculeForm s of
        None \<Rightarrow> s
      | Some p \<Rightarrow>
          if v = ''species'' \<or> v = ''custom'' then
            (case handleInputMethodChange v (parameters (formData s)) p of
               (params, p') \<Rightarrow> (setParameters params s)\<lparr>panel := Some p'\<rparr>)
          else s)"

text \<open>
  MoleculeParams: the species select, rendered for the input method \<open>species\<close>; its
  options are the empty value and the available species.
\<close>

definition chooseSpecies :: "string \<Rightarrow> wizard \<Rightarrow> wizard" where
  "chooseSpecies v s =
     (case moleculeForm s of
        None \<Rightarrow> s
      | Some p \<Rightarrow>
          if inputMethod p = Str ''species'' \<and> (v = [] \<or> v \<in> set (availableSpecies p)) then
            setParameters ((parameters (formData s))(''species'' \<mapsto> Str v)) s
          else s)"

text \<open>
  MoleculeParams: the three chain text areas, rendered for any other input method. The
  event carries the text typed and the value \<open>u\<close> of \<open>e.target.value.toUpperCase()\<close>.
\<close>

definition editChain :: "string \<Rightarrow> string \<Rightarrow> string \<Rightarrow> wizard \<Rightarrow> wizard" where
  "editChain chain v u s =
     (case moleculeForm s of
        None \<Rightarrow> s
      | Some p \<Rightarrow>
          if inputMethod p \<noteq> Str ''species'' \<and> chain \<in> set sequences \<and> toUpperCaseGives v u
          then setParameters ((parameters (formData s))(chain \<mapsto> Str u)) s
          else s)"

text \<open>
  MoleculeParams: the Enable Crosslinks checkbox, rendered for the input method
  \<open>species\<close>, \<open>disabled={!formData.species}\<close>.
\<close>

definition toggleCrosslinks :: "bool \<Rightarrow> wizard \<Rightarrow> wizard" where
  "toggleCrosslinks checked s =
     (case moleculeForm s of
        None \<Rightarrow> s
      | Some p \<Rightarrow>
          if inputMethod p = Str ''species'' \<and> truthy (get (parameters (formData s)) ''species'')
          then
            setParameters
              ((parameters (formData s))
                 (''enableCrosslinks'' \<mapsto> Bool checked,
                  ''nTerminalType'' \<mapsto> Str ''NONE'',
                  ''cTerminalType'' \<mapsto> Str ''NONE'',
                  ''nTerminalPosition'' \<mapsto> Null,
                  ''cTerminalPosition'' \<mapsto> Null)) s
          else s)"

text \<open>
  MoleculeParams: the terminal type selects (options \<open>NONE\<close> and the types of the
  reference data) and the terminal position selects (rendered once a type other than
  \<open>NONE\<close> is set; options: the empty value and the positions of that type).
\<close>

definition crosslinkSelects :: "wizard \<Rightarrow> string \<Rightarrow> terminal_data option" where
  "crosslinkSelects s terminal =
     (case moleculeForm s of
        None \<Rightarrow> None
      | Some p \<Rightarrow>
          if inputMethod p = Str ''species'' \<and> (terminal = ''n'' \<or> terminal = ''c'') then
            map_option (terminalOf terminal) (renderCrosslinkOptions (parameters (formData s)) p)
          else None)"

definition chooseTerminalType :: "string \<Rightarrow> string \<Rightarrow> wizard \<Rightarrow> wizard" where
  "chooseTerminalType terminal v s =
     (case crosslinkSelects s terminal of
        None \<Rightarrow> s
      | Some td \<Rightarrow>
          if v \<in> set (''NONE'' # types td) then
            setParameters (handleCrosslinkChange (parameters (formData s)) terminal (Str v) Undefined) s
          else s)"

definition positionOptions :: "terminal_data \<Rightarrow> jsval \<Rightarrow> string list" where
  "positionOptions td type =
     [] # (case positions td (toString type) of None \<Rightarrow> [] | Some ps \<Rightarrow> ps)"

definition chooseTerminalPosition :: "string \<Rightarrow> string \<Rightarrow> wizard \<Rightarrow> wizard" where
  "chooseTerminalPosition terminal v s =
     (case crosslinkSelects s terminal of
        None \<Rightarrow> s
      | Some td \<Rightarrow>
          (let type = get (parameters (formData s)) (terminal @ ''TerminalType'') in
           if truthy type \<and> type \<noteq> Str ''NONE'' \<and> v \<in> set (positionOptions td type) then
             setParameters (handleCrosslinkChange (parameters (formData s)) terminal type (Str v)) s
           else s))"

datatype event =
    SelectJobType job_type
  | ClickContinue
  | EditBasicInfo string string
  | ClickNext
  | ClickPrevious
  | ClickSubmit
  | SubmitSettled fetch_outcome
  | LoadSettled load_outcome
  | ChooseInputMethod string
  | ChooseSpecies string
  | EditChain string string string
  | ToggleCrosslinks bool
  | ChooseTerminalType string string
  | ChooseTerminalPosition string string

fun dispatch :: "event \<Rightarrow> wizard \<Rightarrow> wizard" where
  "dispatch (SelectJobType t) s = selectJobType t s"
| "dispatch ClickContinue s = clickContinue s"
| "dispatch (EditBasicInfo field v) s = editBasicInfo field v s"
| "dispatch ClickNext s = clickNext s"
| "dispatch ClickPrevious s = clickPrevious s"
| "dispatch ClickSubmit s = clickSubmit s"
| "dispatch (SubmitSettled r) s = submitSettled r s"
| "dispatch (LoadSettled r) s = loadSettled r s"
| "dispatch (ChooseInputMethod v) s = chooseInputMethod v s"
| "dispatch (ChooseSpecies v) s = chooseSpecies v s"
| "dispatch (EditChain chain v u) s = editChain chain v u s"
| "dispatch (ToggleCrosslinks checked) s = toggleCrosslinks checked s"
| "dispatch (ChooseTerminalType terminal v) s = chooseTerminalType terminal v s"
| "dispatch (ChooseTerminalPosition terminal v) s = chooseTerminalPosition terminal v s"

text \<open>The state after a sequence of events, from the state the wizard mounts in.\<close>

definition run :: "event list \<Rightarrow> wizard" where
  "run es = foldl (\<lambda>s e. dispatch e s) initial es"

inductive reachable :: "wizard \<Rightarrow> bool" where
  reachable_initial: "reachable initial"
| reachable_dispatch: "reachable s \<Longrightarrow> reachable (dispatch e s)"

section \<open>Job wizard: predicates used by the properties\<close>

text \<open>What holds in every state the wizard can be in (proved below).\<close>

definition wizard_inv :: "wizard \<Rightarrow> bool" where
  "wizard_inv s =
     (0 \<le> currentStep s \<and> currentStep s \<le> 3
      \<and> (0 < currentStep s \<longrightarrow> jobType s \<noteq> None)
      \<and> (1 < currentStep s \<longrightarrow> jobName (formData s) \<noteq> [])
      \<and> (panel s \<noteq> None \<longleftrightarrow> currentStep s = 2 \<and> jobType s = Some molecule)
      \<and> (\<forall>p. panel s = Some p \<longrightarrow>
            inputMethod p
              = or_else (get (parameters (formData s)) ''inputMethod'') (Str ''species''))
      \<and> inFlight s = (if isSubmitting s then 1 else 0))"

text \<open>
  What \<open>handleSubmit\<close> of the molecule panel accepts, as a predicate on the parameters
  alone (proved below): the input method is the one recorded in the parameters,
  \<open>species\<close> when none is recorded.
\<close>

definition handlerAccepts :: "obj \<Rightarrow> bool" where
  "handlerAccepts fd =
     ((if or_else (get fd ''inputMethod'') (Str ''species'') = Str ''species''
       then truthy (get fd ''species'')
       else list_all (\<lambda>chain. validateSequence (get fd chain)) sequences)
      \<and> (truthy (get fd ''enableCrosslinks'') \<longrightarrow>
            (get fd ''nTerminalType'' = Str ''NONE'' \<or> truthy (get fd ''nTerminalPosition''))
            \<and> (get fd ''cTerminalType'' = Str ''NONE''
                 \<or> truthy (get fd ''cTerminalPosition''))))"

text \<open>
  What the forward button of the current step lets through, on the job type and the form
  data: a job type is selected (step 0), the job name is not empty (step 1), the handler
  of the parameter panel accepts (step 2; the fibril panels accept always).
\<close>

definition stepChecks :: "wizard \<Rightarrow> bool" where
  "stepChecks s =
     (if currentStep s = 0 then jobType s \<noteq> None
      else if currentStep s = 1 then jobName (formData s) \<noteq> []
      else if currentStep s = 2 then
        (case jobType s of
           None \<Rightarrow> False
         | Some molecule \<Rightarrow> handlerAccepts (parameters (formData s))
         | Some _ \<Rightarrow> True)
      else False)"

text \<open>
  The validation predicate of each step in the words of the specification (sections 4.3
  and 4.4), to be compared with what the code lets through. For the molecule panel, on
  the parameters and the reference table: with the \<open>species\<close> method a species is
  selected; with the \<open>custom\<close> method each of the three chains has a length from 950
  to 1150 and only letters of the restricted alphabet; and with crosslinks enabled, a
  terminal type other than \<open>NONE\<close> comes with an explicit position drawn from the
  reference table filtered by species, terminal and type.
\<close>

definition specChainValid :: "jsval \<Rightarrow> bool" where
  "specChainValid v =
     (case v of
        Str sq \<Rightarrow> 950 \<le> length sq \<and> length sq \<le> 1150 \<and> list_all (\<lambda>c. c \<in> set alphabet) sq
      | _ \<Rightarrow> False)"

text \<open>The terminals of the reference table are named \<open>LYS-N\<close> and \<open>LYS-C\<close>.\<close>

definition terminalKey :: "string \<Rightarrow> string" where
  "terminalKey terminal = (if terminal = ''n'' then ''LYS-N'' else ''LYS-C'')"

definition tablePositions :: "crosslink list \<Rightarrow> string \<Rightarrow> string \<Rightarrow> string \<Rightarrow> string list" where
  "tablePositions table sp terminal ty =
     concat (map (\<lambda>row. case position row of None \<Rightarrow> [] | Some pos \<Rightarrow> [pos])
       (filter (\<lambda>row. species row = sp \<and> res_terminal row = terminalKey terminal
                      \<and> ctype row = ty) table))"

definition specPositionChosen :: "crosslink list \<Rightarrow> obj \<Rightarrow> string \<Rightarrow> bool" where
  "specPositionChosen table fd terminal =
     (if get fd (terminal @ ''TerminalType'') = Str ''NONE'' then True
      else
        (case (get fd ''species'', get fd (terminal @ ''TerminalType''),
               get fd (terminal @ ''TerminalPosition'')) of
           (Str sp, Str ty, Str pos) \<Rightarrow>
             pos \<noteq> [] \<and> pos \<in> set (tablePositions table sp terminal ty)
         | _ \<Rightarrow> False))"

definition specMoleculeValid :: "crosslink list \<Rightarrow> obj \<Rightarrow> bool" where
  "specMoleculeValid table fd =
     ((if or_else (get fd ''inputMethod'') (Str ''species'') = Str ''species''
       then truthy (get fd ''species'')
       else list_all (\<lambda>chain. specChainValid (get fd chain)) sequences)
      \<and> (if truthy (get fd ''enableCrosslinks'')
          then specPositionChosen table fd ''n'' \<and> specPositionChosen table fd ''c''
          else True))"

text \<open>The reference table the molecule panel holds (empty while it holds none).\<close>

definition referenceTable :: "wizard \<Rightarrow> crosslink list" where
  "referenceTable s =
     (case panel s of
        None \<Rightarrow> []
      | Some p \<Rightarrow> (case crosslinkData p of None \<Rightarrow> [] | Some rows \<Rightarrow> rows))"

definition specStepValid :: "wizard \<Rightarrow> bool" where
  "specStepValid s =
     (if currentStep s = 0 then jobType s \<noteq> None
      else if currentStep s = 1 then jobName (formData s) \<noteq> []
      else if currentStep s = 2 then
        (case jobType s of
           None \<Rightarrow> False
         | Some molecule \<Rightarrow> specMoleculeValid (referenceTable s) (parameters (formData s))
         | Some _ \<Rightarrow> True)
      else False)"

text \<open>A forward-transition attempt: a click on the forward button of the current step.\<close>

definition clickForward :: "wizard \<Rightarrow> wizard" where
  "clickForward s = (if currentStep s = 0 then clickContinue s else clickNext s)"

text \<open>
  Whether the parameter panel of the current job type renders its Previous and Next
  buttons: the fibril panels always do, MoleculeParams only as part of its form.
\<close>

definition panelButtonsShown :: "wizard \<Rightarrow> bool" where
  "panelButtonsShown s =
     (case jobType s of
        None \<Rightarrow> False
      | Some molecule \<Rightarrow> moleculeForm s \<noteq> None
      | Some _ \<Rightarrow> True)"

definition forwardShown :: "wizard \<Rightarrow> bool" where
  "forwardShown s =
     (currentStep s = 0 \<or> currentStep s = 1 \<or> (currentStep s = 2 \<and> panelButtonsShown s))"

definition previousShown :: "wizard \<Rightarrow> bool" where
  "previousShown s =
     (currentStep s = 1 \<or> currentStep s = 3 \<or> (currentStep s = 2 \<and> panelButtonsShown s))"

text \<open>The events that edit a field of the form data.\<close>

fun fieldEdit :: "event \<Rightarrow> bool" where
  "fieldEdit (EditBasicInfo field v) = True"
| "fieldEdit (ChooseInputMethod v) = True"
| "fieldEdit (ChooseSpecies v) = True"
| "fieldEdit (EditChain chain v u) = True"
| "fieldEdit (ToggleCrosslinks checked) = True"
| "fieldEdit (ChooseTerminalType terminal v) = True"
| "fieldEdit (ChooseTerminalPosition terminal v) = True"
| "fieldEdit _ = False"

text \<open>
  The outcomes of the submission request at which \<open>handleSubmit\<close> of JobWizard ends in
  its \<open>catch\<close> block: the request is rejected, the body cannot be read, or the response
  is not \<open>ok\<close>.
\<close>

fun reachesCatch :: "fetch_outcome \<Rightarrow> bool" where
  "reachesCatch (FetchRejected m) = True"
| "reachesCatch (FetchResponse st (JsonThrows m)) = True"
| "reachesCatch (FetchResponse st (JsonNull m)) = True"
| "reachesCatch (FetchResponse st (JsonObject data)) = (\<not> ok st)"

text \<open>The lower-case forms of the letters of \<open>alphabet\<close>.\<close>

definition alphabetLower :: string where
  "alphabetLower = ''abcdefghiklmnopqrstuvwxyz''"

section \<open>Job wizard: concrete runs\<close>

text \<open>
  Reference data, responses and event sequences at which the properties below are
  exercised. The reference data lists two species and, for the first, one crosslink type
  with one position at each terminal.
\<close>

definition referenceData :: load_body where
  "referenceData =
     \<lparr>body_status = Str ''success'', body_message = Undefined,
      body_species = Some [''homo_sapiens'', ''rattus_norvegicus''],
      body_crosslinks =
        Some [\<lparr>species = ''homo_sapiens'', res_terminal = ''LYS-N'', ctype = ''HLKNL'',
                position = Some ''9.C''\<rparr>,
              \<lparr>species = ''homo_sapiens'', res_terminal = ''LYS-C'', ctype = ''HLKNL'',
                position = Some ''947.A''\<rparr>]\<rparr>"

text \<open>Up to the molecule panel with its reference data loaded.\<close>

definition toMoleculeForm :: "event list" where
  "toMoleculeForm =
     [SelectJobType molecule, ClickContinue, EditBasicInfo ''jobName'' ''Run1'', ClickNext,
      LoadSettled (LoadBody referenceData)]"

text \<open>Up to the review step of a standard fibril job named Run1.\<close>

definition toReview :: "event list" where
  "toReview =
     [SelectJobType standardFibril, ClickContinue, EditBasicInfo ''jobName'' ''Run1'', ClickNext,
      ClickNext]"

text \<open>A job type selected at step 0; a job name entered at step 1.\<close>

definition typeSelected :: wizard where
  "typeSelected = run [SelectJobType molecule]"

definition nameEntered :: wizard where
  "nameEntered = run [SelectJobType molecule, ClickContinue, EditBasicInfo ''jobName'' ''Run1'']"

text \<open>The custom input method with a chain of 900 characters typed into the first field.\<close>

definition scenarioB :: wizard where
  "scenarioB =
     run (toMoleculeForm @ [ChooseInputMethod ''custom'',
                            EditChain ''chainA'' (replicate 900 (CHR ''a'')) (replicate 900 (CHR ''A''))])"

text \<open>The custom input method with three chains of 1000, 950 and 1150 characters.\<close>

definition customEntered :: wizard where
  "customEntered =
     run (toMoleculeForm @
       [ChooseInputMethod ''custom'',
        EditChain ''chainA'' (replicate 1000 (CHR ''a'')) (replicate 1000 (CHR ''A'')),
        EditChain ''chainB'' (replicate 950 (CHR ''G'')) (replicate 950 (CHR ''G'')),
        EditChain ''chainC'' (replicate 1150 (CHR ''-'')) (replicate 1150 (CHR ''-''))])"

text \<open>A species chosen; and, further, crosslinks enabled with an N-terminal type and position.\<close>

definition speciesChosen :: wizard where
  "speciesChosen = dispatch (ChooseSpecies ''homo_sapiens'') (run toMoleculeForm)"

definition crosslinksChosen :: wizard where
  "crosslinksChosen =
     run (toMoleculeForm @
       [ChooseSpecies ''homo_sapiens'', ToggleCrosslinks True,
        ChooseTerminalType ''n'' ''HLKNL'', ChooseTerminalPosition ''n'' ''9.C''])"

text \<open>The same, and then another species chosen.\<close>

definition staleCrosslinks :: wizard where
  "staleCrosslinks =
     run (toMoleculeForm @
       [ChooseSpecies ''homo_sapiens'', ToggleCrosslinks True,
        ChooseTerminalType ''n'' ''HLKNL'', ChooseTerminalPosition ''n'' ''9.C'',
        ChooseSpecies ''rattus_norvegicus''])"

text \<open>The molecule panel after the loading of its reference data has failed.\<close>

definition loadFailed :: wizard where
  "loadFailed =
     run [SelectJobType molecule, ClickContinue, EditBasicInfo ''jobName'' ''Run1'', ClickNext,
          LoadSettled (LoadThrows ''Failed to fetch'')]"

text \<open>
  The review step with the submission request outstanding, and three answers to it: HTTP
  200 with a body that reports an error, HTTP 500 with a message, and HTTP 200 with a job id.
\<close>

definition reviewSubmitting :: wizard where
  "reviewSubmitting = run (toReview @ [ClickSubmit])"

definition businessError :: fetch_outcome where
  "businessError =
     FetchResponse 200
       (JsonObject [''status'' \<mapsto> Str ''error'', ''message'' \<mapsto> Str ''Job limit reached''])"

definition serverError :: fetch_outcome where
  "serverError =
     FetchResponse 500
       (JsonObject [''status'' \<mapsto> Str ''error'', ''message'' \<mapsto> Str ''Queue unavailable''])"

definition jobAccepted :: fetch_outcome where
  "jobAccepted = FetchResponse 200 (JsonObject [''job_id'' \<mapsto> Str ''42''])"

section \<open>Properties of the session store\<close>

text \<open>
  Claim C5. Whatever the logout request does (the server answers with success, the server
  answers with an error, or the transport fails), \<open>logout\<close> sets the current user to
  null; a transport failure is reported to the caller as a successful local logout, with the
  local-logout message, and not as a failure.
\<close>

theorem logout_always_clears_identity:
  "currentUser (fst (logout st r)) = None
   \<and> success (snd (logout st r))
   \<and> logout st Rejected =
       (st\<lparr>currentUser := None\<rparr>, \<lparr>success = True, message = Str logoutLocalMessage\<rparr>)"
  by (simp add: logout_def split: axios_outcome.split option.split)

section \<open>Invariants of the wizard\<close>

lemma inv_initial: "wizard_inv initial"
  by (simp add: wizard_inv_def initial_def)

lemma inv_selectJobType: "wizard_inv s \<Longrightarrow> wizard_inv (selectJobType t s)"
  by (auto simp: wizard_inv_def selectJobType_def)

lemma inv_setCurrentStep_next:
  "wizard_inv s \<Longrightarrow> (currentStep s = 0 \<longrightarrow> jobType s \<noteq> None) \<Longrightarrow> (currentStep s = 1 \<longrightarrow> jobName (formData s) \<noteq> [])
   \<Longrightarrow> wizard_inv (setCurrentStep handleNext s)"
  by (auto simp: wizard_inv_def setCurrentStep_def handleNext_def STEPS_def Let_def mountMoleculeParams_def)

lemma inv_setCurrentStep_prev:
  "wizard_inv s \<Longrightarrow> wizard_inv (setCurrentStep handlePrevious s)"
  by (auto simp: wizard_inv_def setCurrentStep_def handlePrevious_def Let_def mountMoleculeParams_def)

lemma inv_clickContinue: "wizard_inv s \<Longrightarrow> wizard_inv (clickContinue s)"
  by (simp add: clickContinue_def inv_setCurrentStep_next)

lemma inv_editBasicInfo: "wizard_inv s \<Longrightarrow> wizard_inv (editBasicInfo f v s)"
  by (auto simp: wizard_inv_def editBasicInfo_def handleChange_def)

lemma inv_clickPrevious: "wizard_inv s \<Longrightarrow> wizard_inv (clickPrevious s)"
  by (auto simp: clickPrevious_def inv_setCurrentStep_prev split: option.splits job_type.splits)

lemma inv_panel_error: "wizard_inv s \<Longrightarrow> panel s = Some p \<Longrightarrow> wizard_inv (s\<lparr>panel := Some (p\<lparr>panel_error := e\<rparr>)\<rparr>)"
  by (auto simp: wizard_inv_def)

lemma moleculeForm_Some: "moleculeForm s = Some p \<Longrightarrow> panel s = Some p \<and> currentStep s = 2 \<and> jobType s = Some molecule \<and> formShown p"
  by (auto simp: moleculeForm_def split: option.splits if_splits)

lemma inv_clickNext:
  assumes "wizard_inv s"
  shows "wizard_inv (clickNext s)"
proof -
  have a: "currentStep s = 1 \<Longrightarrow> jobName (formData s) \<noteq> [] \<Longrightarrow> wizard_inv (setCurrentStep handleNext s)"
    using assms by (simp add: inv_setCurrentStep_next)
  have b: "currentStep s = 2 \<Longrightarrow> wizard_inv (setCurrentStep handleNext s)"
    using assms by (simp add: inv_setCurrentStep_next)
  have c: "\<And>p. panel s = Some p \<Longrightarrow> currentStep s = 2 \<Longrightarrow>
      wizard_inv (setCurrentStep handleNext (s\<lparr>panel := Some (p\<lparr>panel_error := None\<rparr>)\<rparr>))"
    using inv_panel_error[OF assms] by (simp add: inv_setCurrentStep_next)
  have d: "\<And>p e. panel s = Some p \<Longrightarrow> wizard_inv (s\<lparr>panel := Some (p\<lparr>panel_error := Some e\<rparr>)\<rparr>)"
    using inv_panel_error[OF assms] by simp
  show ?thesis
    unfolding clickNext_def using a b c d assms
    by (auto split: option.splits job_type.splits dest!: moleculeForm_Some)
qed

lemma inv_clickSubmit: "wizard_inv s \<Longrightarrow> wizard_inv (clickSubmit s)"
  by (auto simp: wizard_inv_def clickSubmit_def submitStart_def submitDisabled_def)

lemma inv_submitSettled: "wizard_inv s \<Longrightarrow> wizard_inv (submitSettled r s)"
  by (auto simp: wizard_inv_def submitSettled_def submitSettle_def split: fetch_outcome.splits json_result.splits if_splits)

lemma inputMethod_loadData: "inputMethod (loadData r p) = inputMethod p"
  by (simp add: loadData_def split: load_outcome.splits)

lemma inv_loadSettled: "wizard_inv s \<Longrightarrow> wizard_inv (loadSettled r s)"
  by (auto simp: wizard_inv_def loadSettled_def inputMethod_loadData split: option.splits)

lemma inv_setParameters:
  "wizard_inv s \<Longrightarrow> get params ''inputMethod'' = get (parameters (formData s)) ''inputMethod''
   \<Longrightarrow> wizard_inv (setParameters params s)"
  by (auto simp: wizard_inv_def setParameters_def)

lemma inv_chooseInputMethod: "wizard_inv s \<Longrightarrow> wizard_inv (chooseInputMethod v s)"
  by (auto simp: wizard_inv_def chooseInputMethod_def handleInputMethodChange_def setParameters_def
        get_def or_else_def split: option.splits dest!: moleculeForm_Some)

lemma inv_chooseSpecies: "wizard_inv s \<Longrightarrow> wizard_inv (chooseSpecies v s)"
  by (auto simp: chooseSpecies_def get_def split: option.splits intro!: inv_setParameters)

lemma inv_editChain: "wizard_inv s \<Longrightarrow> wizard_inv (editChain c v u s)"
  by (auto simp: editChain_def get_def sequences_def split: option.splits intro!: inv_setParameters)

lemma inv_toggleCrosslinks: "wizard_inv s \<Longrightarrow> wizard_inv (toggleCrosslinks b s)"
  by (auto simp: toggleCrosslinks_def get_def split: option.splits intro!: inv_setParameters)

lemma crosslinkSelects_Some: "crosslinkSelects s t = Some td \<Longrightarrow> t = ''n'' \<or> t = ''c''"
  by (auto simp: crosslinkSelects_def split: option.splits if_splits)

lemma get_handleCrosslinkChange:
  "t = ''n'' \<or> t = ''c'' \<Longrightarrow> get (handleCrosslinkChange fd t ty a) ''inputMethod'' = get fd ''inputMethod''"
  by (auto simp: handleCrosslinkChange_def get_def Let_def)

lemma inv_chooseTerminalType: "wizard_inv s \<Longrightarrow> wizard_inv (chooseTerminalType t v s)"
  by (auto simp: chooseTerminalType_def get_handleCrosslinkChange split: option.splits
        intro!: inv_setParameters dest: crosslinkSelects_Some)

lemma inv_chooseTerminalPosition: "wizard_inv s \<Longrightarrow> wizard_inv (chooseTerminalPosition t v s)"
  by (auto simp: chooseTerminalPosition_def Let_def get_handleCrosslinkChange split: option.splits
        intro!: inv_setParameters dest: crosslinkSelects_Some)

lemma inv_dispatch: "wizard_inv s \<Longrightarrow> wizard_inv (dispatch e s)"
  by (cases e)
     (simp_all add: inv_selectJobType inv_clickContinue inv_editBasicInfo inv_clickNext
        inv_clickPrevious inv_clickSubmit inv_submitSettled inv_loadSettled inv_chooseInputMethod
        inv_chooseSpecies inv_editChain inv_toggleCrosslinks inv_chooseTerminalType
        inv_chooseTerminalPosition)

lemma reachable_inv: "reachable s \<Longrightarrow> wizard_inv s"
  by (induction rule: reachable.induct) (simp_all add: inv_initial inv_dispatch)

section \<open>Running event sequences\<close>

lemma run_snoc: "run (es @ [e]) = dispatch e (run es)"
  by (simp add: run_def)

lemma run_append: "run (es @ fs) = foldl (\<lambda>s e. dispatch e s) (run es) fs"
  by (simp add: run_def)

lemma reachable_run: "reachable (run es)"
proof (induction es rule: rev_induct)
  case Nil
  show ?case by (simp add: run_def reachable_initial)
next
  case (snoc e es)
  then show ?case by (simp add: run_snoc reachable_dispatch)
qed

lemmas ui_defs = run_def initial_def selectJobType_def clickContinue_def editBasicInfo_def
  clickNext_def clickPrevious_def clickSubmit_def submitSettled_def loadSettled_def
  chooseInputMethod_def chooseSpecies_def editChain_def toggleCrosslinks_def
  chooseTerminalType_def chooseTerminalPosition_def setCurrentStep_def handleNext_def
  handlePrevious_def STEPS_def handleChange_def mountMoleculeParams_def moleculeForm_def
  formShown_def loadData_def setParameters_def or_else_def get_def Let_def

lemma run_toReview:
  "run toReview =
     \<lparr>currentStep = 3, jobType = Some standardFibril,
      formData = \<lparr>jobName = ''Run1'', description = [], parameters = Map.empty\<rparr>,
      error = None, isSubmitting = False, panel = None, submitted = [], inFlight = 0,
      location = None\<rparr>"
  by (simp add: toReview_def ui_defs)

lemma run_toMoleculeForm:
  "run toMoleculeForm =
     \<lparr>currentStep = 2, jobType = Some molecule,
      formData = \<lparr>jobName = ''Run1'', description = [], parameters = Map.empty\<rparr>,
      error = None, isSubmitting = False,
      panel = Some \<lparr>panel_error = None, isLoading = False,
                    availableSpecies = [''homo_sapiens'', ''rattus_norvegicus''],
                    crosslinkData = body_crosslinks referenceData,
                    inputMethod = Str ''species''\<rparr>,
      submitted = [], inFlight = 0, location = None\<rparr>"
  by (simp add: toMoleculeForm_def referenceData_def ui_defs)

section \<open>Forward transitions\<close>

lemma firstInvalid_None:
  "firstInvalid fd cs = None \<longleftrightarrow> list_all (\<lambda>chain. validateSequence (get fd chain)) cs"
  by (induction cs) auto

lemma firstInvalid_Some:
  "firstInvalid fd cs = Some c \<Longrightarrow> c \<in> set cs \<and> \<not> validateSequence (get fd c)"
  by (induction cs) (auto split: if_splits)

lemma case_None_iff:
  "(case x of None \<Rightarrow> y | Some e \<Rightarrow> Some e) = None \<longleftrightarrow> x = None \<and> y = None"
  by (cases x) simp_all

lemma handleSubmit_None_iff:
  "MoleculeParams_handleSubmit fd (or_else (get fd ''inputMethod'') (Str ''species'')) = None
   \<longleftrightarrow> handlerAccepts fd"
  unfolding MoleculeParams_handleSubmit_def handlerAccepts_def case_None_iff
  by (simp add: firstInvalid_None)

lemma setCurrentStep_frame:
  "jobType (setCurrentStep f s) = jobType s" "formData (setCurrentStep f s) = formData s"
  "currentStep (setCurrentStep f s) = f (currentStep s)"
  by (simp_all add: setCurrentStep_def Let_def)

lemma handleNext_simp: "handleNext k = min (k + 1) 3"
  by (simp add: handleNext_def STEPS_def)

lemma forward_at_0:
  "currentStep s = 0 \<Longrightarrow>
     clickForward s = (if jobType s \<noteq> None then setCurrentStep handleNext s else s)"
  by (simp add: clickForward_def clickContinue_def)

lemma forward_at_1:
  "currentStep s = 1 \<Longrightarrow>
     clickForward s = (if jobName (formData s) \<noteq> [] then setCurrentStep handleNext s else s)"
  by (simp add: clickForward_def clickNext_def)

lemma forward_at_3: "currentStep s = 3 \<Longrightarrow> clickForward s = s"
  by (simp add: clickForward_def clickNext_def)

lemma forward_at_2_fibril:
  "currentStep s = 2 \<Longrightarrow> jobType s = Some t \<Longrightarrow> t \<noteq> molecule \<Longrightarrow>
     clickForward s = setCurrentStep handleNext s"
  by (cases t) (simp_all add: clickForward_def clickNext_def)

lemma forward_at_2_hidden:
  "currentStep s = 2 \<Longrightarrow> jobType s = Some molecule \<Longrightarrow> moleculeForm s = None \<Longrightarrow>
     clickForward s = s"
  by (simp add: clickForward_def clickNext_def)

lemma forward_at_2_molecule:
  "currentStep s = 2 \<Longrightarrow> jobType s = Some molecule \<Longrightarrow> moleculeForm s = Some p \<Longrightarrow>
     clickForward s =
       (case MoleculeParams_handleSubmit (parameters (formData s)) (inputMethod p) of
          Some e \<Rightarrow> s\<lparr>panel := Some (p\<lparr>panel_error := Some e\<rparr>)\<rparr>
        | None \<Rightarrow> setCurrentStep handleNext (s\<lparr>panel := Some (p\<lparr>panel_error := None\<rparr>)\<rparr>))"
  by (simp add: clickForward_def clickNext_def)

lemma inv_inputMethod:
  "wizard_inv s \<Longrightarrow> moleculeForm s = Some p \<Longrightarrow>
     inputMethod p = or_else (get (parameters (formData s)) ''inputMethod'') (Str ''species'')"
  by (auto simp: wizard_inv_def dest!: moleculeForm_Some)

lemma forward_molecule_valid:
  assumes "wizard_inv s" "currentStep s = 2" "jobType s = Some molecule" "moleculeForm s = Some p"
    "handlerAccepts (parameters (formData s))"
  shows "currentStep (clickForward s) = 3" "formData (clickForward s) = formData s"
    "jobType (clickForward s) = jobType s"
  using assms handleSubmit_None_iff[of "parameters (formData s)"]
  by (simp_all add: forward_at_2_molecule inv_inputMethod setCurrentStep_frame handleNext_simp)

lemma forward_molecule_invalid:
  assumes "wizard_inv s" "currentStep s = 2" "jobType s = Some molecule" "moleculeForm s = Some p"
    "\<not> handlerAccepts (parameters (formData s))"
  shows "\<exists>e. MoleculeParams_handleSubmit (parameters (formData s)) (inputMethod p) = Some e
            \<and> clickForward s = s\<lparr>panel := Some (p\<lparr>panel_error := Some e\<rparr>)\<rparr>"
proof -
  have "MoleculeParams_handleSubmit (parameters (formData s)) (inputMethod p) \<noteq> None"
    using assms handleSubmit_None_iff[of "parameters (formData s)"]
    by (simp add: inv_inputMethod)
  then show ?thesis
    using assms by (auto simp: forward_at_2_molecule)
qed

lemma forward_cases:
  assumes "wizard_inv s"
  shows "(forwardShown s \<and> stepChecks s \<longrightarrow> currentStep (clickForward s) = currentStep s + 1)
       \<and> (currentStep (clickForward s) \<noteq> currentStep s \<longrightarrow>
            stepChecks s \<and> currentStep (clickForward s) = currentStep s + 1)
       \<and> jobType (clickForward s) = jobType s \<and> formData (clickForward s) = formData s"
proof -
  have range: "currentStep s = 0 \<or> currentStep s = 1 \<or> currentStep s = 2 \<or> currentStep s = 3"
    using assms by (auto simp: wizard_inv_def)
  moreover have ?thesis if "currentStep s = 0"
    using that by (simp add: forward_at_0 stepChecks_def forwardShown_def setCurrentStep_frame handleNext_simp)
  moreover have ?thesis if "currentStep s = 1"
    using that by (simp add: forward_at_1 stepChecks_def forwardShown_def setCurrentStep_frame handleNext_simp)
  moreover have ?thesis if "currentStep s = 3"
    using that by (simp add: forward_at_3 stepChecks_def forwardShown_def)
  moreover have ?thesis if two: "currentStep s = 2"
  proof -
    obtain t where t: "jobType s = Some t"
      using assms two by (auto simp: wizard_inv_def)
    show ?thesis
    proof (cases "t = molecule")
      case False
      then show ?thesis
        using two t forward_at_2_fibril[OF two t]
        by (cases t) (simp_all add: stepChecks_def forwardShown_def panelButtonsShown_def
              setCurrentStep_frame handleNext_simp)
    next
      case True
      show ?thesis
      proof (cases "moleculeForm s")
        case None
        then show ?thesis
          using two t True by (simp add: forward_at_2_hidden forwardShown_def panelButtonsShown_def)
      next
        case (Some p)
        show ?thesis
        proof (cases "handlerAccepts (parameters (formData s))")
          case valid: True
          show ?thesis
            using forward_molecule_valid[OF assms two _ Some valid] t True two valid
            by (simp add: stepChecks_def)
        next
          case invalid: False
          obtain e where "clickForward s = s\<lparr>panel := Some (p\<lparr>panel_error := Some e\<rparr>)\<rparr>"
            using forward_molecule_invalid[OF assms two _ Some invalid] t True by auto
          then show ?thesis
            using t True two invalid by (simp add: stepChecks_def)
        qed
      qed
    qed
  qed
  ultimately show ?thesis by blast
qed

lemma invalid_chain_rejected:
  assumes "moleculeForm s = Some p" "inputMethod p \<noteq> Str ''species''"
    "chain \<in> set sequences" "\<not> validateSequence (get (parameters (formData s)) chain)"
  shows "\<exists>bad\<in>set sequences. clickNext s = s\<lparr>panel := Some (p\<lparr>panel_error := Some (chainError bad)\<rparr>)\<rparr>"
proof -
  have "firstInvalid (parameters (formData s)) sequences \<noteq> None"
    using assms(3,4) by (auto simp: firstInvalid_None list_all_iff)
  then obtain bad where bad: "firstInvalid (parameters (formData s)) sequences = Some bad"
    by auto
  then have "bad \<in> set sequences"
    by (simp add: firstInvalid_Some)
  moreover have "MoleculeParams_handleSubmit (parameters (formData s)) (inputMethod p)
      = Some (chainError bad)"
    using assms(2) bad by (simp add: MoleculeParams_handleSubmit_def)
  moreover have "currentStep s = 2" "jobType s = Some molecule"
    using moleculeForm_Some[OF assms(1)] by simp_all
  ultimately show ?thesis
    using assms(1) by (auto simp: clickNext_def)
qed

lemma specChainValid_eq: "specChainValid v = validateSequence v"
  by (cases v) (auto simp: specChainValid_def)

lemma specPositionChosen_truthy:
  "specPositionChosen table fd terminal \<Longrightarrow>
     get fd (terminal @ ''TerminalType'') = Str ''NONE''
     \<or> truthy (get fd (terminal @ ''TerminalPosition''))"
  by (auto simp: specPositionChosen_def split: if_splits jsval.splits)

lemma spec_valid_accepted: "specMoleculeValid table fd \<Longrightarrow> handlerAccepts fd"
  using specPositionChosen_truthy[of table fd "''n''"] specPositionChosen_truthy[of table fd "''c''"]
  by (auto simp: specMoleculeValid_def handlerAccepts_def specChainValid_eq split: if_splits)

text \<open>
  Claim C3. The claim says that a forward transition succeeds if and only if the
  validation predicate of the current step holds of the current form data. On the
  molecule Parameters step the handler of Next only tests that a position is set, not that
  it is one the reference table has for the species: after crosslinks were chosen for one
  species and another species was then selected, the validation predicate of the
  specification fails (the table has no position for the new species), and Next moves on
  to the review step all the same.
\<close>

theorem stale_position_passes_next:
  "reachable staleCrosslinks \<and> currentStep staleCrosslinks = 2 \<and> forwardShown staleCrosslinks
   \<and> get (parameters (formData staleCrosslinks)) ''species'' = Str ''rattus_norvegicus''
   \<and> get (parameters (formData staleCrosslinks)) ''nTerminalType'' = Str ''HLKNL''
   \<and> get (parameters (formData staleCrosslinks)) ''nTerminalPosition'' = Str ''9.C''
   \<and> tablePositions (referenceTable staleCrosslinks) ''rattus_norvegicus'' ''n'' ''HLKNL'' = []
   \<and> \<not> specStepValid staleCrosslinks
   \<and> currentStep (clickForward staleCrosslinks) = 3"
proof -
  have "reachable staleCrosslinks"
    unfolding staleCrosslinks_def by (rule reachable_run)
  moreover have "currentStep staleCrosslinks = 2 \<and> forwardShown staleCrosslinks
   \<and> get (parameters (formData staleCrosslinks)) ''species'' = Str ''rattus_norvegicus''
   \<and> get (parameters (formData staleCrosslinks)) ''nTerminalType'' = Str ''HLKNL''
   \<and> get (parameters (formData staleCrosslinks)) ''nTerminalPosition'' = Str ''9.C''
   \<and> tablePositions (referenceTable staleCrosslinks) ''rattus_norvegicus'' ''n'' ''HLKNL'' = []
   \<and> \<not> specStepValid staleCrosslinks
   \<and> currentStep (clickForward staleCrosslinks) = 3"
    by code_simp
  ultimately show ?thesis by simp
qed

section \<open>Concrete states of the custom input method\<close>

lemma toUpperCaseChar_a: "toUpperCaseChar (CHR ''a'') = CHR ''A''"
  by (simp add: toUpperCaseChar_def lowerCase_def upperCase_def)

lemma toUpperCaseChar_examples:
  "toUpperCaseChar (CHR ''G'') = CHR ''G''" "toUpperCaseChar (CHR ''-'') = CHR ''-''"
  "toUpperCaseASCII ''acgt'' = ''ACGT''"
  by (simp_all add: toUpperCaseASCII_def toUpperCaseChar_def lowerCase_def upperCase_def)

lemma toUpperCaseGives_replicate:
  "toUpperCaseGives (replicate n c) (replicate n (toUpperCaseChar c))"
  by (simp add: toUpperCaseGives_def toUpperCaseASCII_def)

lemma toUpperCaseGives_examples:
  "toUpperCaseGives (replicate n (CHR ''a'')) (replicate n (CHR ''A''))"
  "toUpperCaseGives (replicate n (CHR ''G'')) (replicate n (CHR ''G''))"
  "toUpperCaseGives (replicate n (CHR ''-'')) (replicate n (CHR ''-''))"
  using toUpperCaseGives_replicate[of n "CHR ''a''"] toUpperCaseGives_replicate[of n "CHR ''G''"]
    toUpperCaseGives_replicate[of n "CHR ''-''"]
  by (simp_all add: toUpperCaseChar_a toUpperCaseChar_examples)

lemma scenarioB_state:
  "scenarioB =
     \<lparr>currentStep = 2, jobType = Some molecule,
      formData = \<lparr>jobName = ''Run1'', description = [],
        parameters = (fst (handleInputMethodChange ''custom'' Map.empty undefined))
          (''chainA'' \<mapsto> Str (replicate 900 (CHR ''A'')))\<rparr>,
      error = None, isSubmitting = False,
      panel = Some \<lparr>panel_error = None, isLoading = False,
                    availableSpecies = [''homo_sapiens'', ''rattus_norvegicus''],
                    crosslinkData = body_crosslinks referenceData,
                    inputMethod = Str ''custom''\<rparr>,
      submitted = [], inFlight = 0, location = None\<rparr>"
  unfolding scenarioB_def run_append run_toMoleculeForm
  by (simp add: chooseInputMethod_def editChain_def moleculeForm_def formShown_def
        handleInputMethodChange_def setParameters_def sequences_def toUpperCaseGives_examples)

section \<open>The answer to a submission\<close>

lemma reviewSubmitting_state:
  "reviewSubmitting =
     \<lparr>currentStep = 3, jobType = Some standardFibril,
      formData = \<lparr>jobName = ''Run1'', description = [], parameters = Map.empty\<rparr>,
      error = None, isSubmitting = True, panel = None,
      submitted = [(Some standardFibril,
                    \<lparr>jobName = ''Run1'', description = [], parameters = Map.empty\<rparr>)],
      inFlight = 1, location = None\<rparr>"
  unfolding reviewSubmitting_def run_append run_toReview
  by (simp add: clickSubmit_def submitDisabled_def submitStart_def)

text \<open>
  Claim C1. The claim says that a response to the submission with HTTP status 200 and the
  body \<open>{status: "error", message}\<close> is handled as a failure: the message is shown and
  the wizard does not navigate to a job-tracking view. \<open>handleSubmit\<close> of JobWizard
  tests \<open>response.ok\<close> only and never reads the status of the body: at this response it
  sets no error and assigns \<open>/jobs/status/undefined\<close> to the location, where a response
  with a job id leads to the status page of that job.
\<close>

theorem handleSubmit_ignores_body_status:
  "ok 200
   \<and> error (dispatch (SubmitSettled businessError) reviewSubmitting) = None
   \<and> location (dispatch (SubmitSettled businessError) reviewSubmitting)
       = Some ''/jobs/status/undefined''
   \<and> location (dispatch (SubmitSettled jobAccepted) reviewSubmitting)
       = Some ''/jobs/status/42''"
  by (simp add: reviewSubmitting_state businessError_def jobAccepted_def submitSettled_def
        submitSettle_def ok_def get_def)

section \<open>Changing the species\<close>

text \<open>
  Claim C2. The claim says that changing the species while crosslink selections are set
  resets every crosslink field. The species select only replaces \<open>species\<close>: after
  choosing another species the N-terminal type and position chosen for the previous one
  are still in the parameters (and Next accepts them).
\<close>

theorem species_change_keeps_crosslinks:
  "get (parameters (formData crosslinksChosen)) ''nTerminalType'' = Str ''HLKNL''
   \<and> get (parameters (formData (dispatch (ChooseSpecies ''rattus_norvegicus'') crosslinksChosen)))
        ''species'' = Str ''rattus_norvegicus''
   \<and> get (parameters (formData (dispatch (ChooseSpecies ''rattus_norvegicus'') crosslinksChosen)))
        ''nTerminalType'' = Str ''HLKNL''
   \<and> get (parameters (formData (dispatch (ChooseSpecies ''rattus_norvegicus'') crosslinksChosen)))
        ''nTerminalPosition'' = Str ''9.C''
   \<and> currentStep (dispatch ClickNext
        (dispatch (ChooseSpecies ''rattus_norvegicus'') crosslinksChosen)) = 3"
  by code_simp

section \<open>The range of the step and its gates\<close>

lemma currentStep_unchanged:
  "currentStep (selectJobType t s) = currentStep s"
  "currentStep (editBasicInfo f v s) = currentStep s"
  "currentStep (clickSubmit s) = currentStep s"
  "currentStep (submitSettled r s) = currentStep s"
  "currentStep (loadSettled l s) = currentStep s"
  "currentStep (setParameters params s) = currentStep s"
  by (simp_all add: selectJobType_def editBasicInfo_def clickSubmit_def submitStart_def
        submitSettled_def submitSettle_def loadSettled_def setParameters_def
        split: option.splits fetch_outcome.splits json_result.splits)

lemma currentStep_unchanged_molecule:
  "currentStep (chooseInputMethod v s) = currentStep s"
  "currentStep (chooseSpecies v s) = currentStep s"
  "currentStep (editChain c v u s) = currentStep s"
  "currentStep (toggleCrosslinks b s) = currentStep s"
  "currentStep (chooseTerminalType t v s) = currentStep s"
  "currentStep (chooseTerminalPosition t v s) = currentStep s"
  by (simp_all add: chooseInputMethod_def chooseSpecies_def editChain_def toggleCrosslinks_def
        chooseTerminalType_def chooseTerminalPosition_def currentStep_unchanged Let_def
        split: option.splits prod.splits)

lemma clickPrevious_step: "currentStep (clickPrevious s) \<le> currentStep s \<or> currentStep s < 0"
  by (auto simp: clickPrevious_def setCurrentStep_frame handlePrevious_def
        split: option.splits job_type.splits)

lemma clickContinue_step:
  "currentStep (clickContinue s) \<noteq> currentStep s \<Longrightarrow>
     currentStep s = 0 \<and> jobType s \<noteq> None \<and> currentStep (clickContinue s) = 1"
  by (auto simp: clickContinue_def setCurrentStep_frame handleNext_simp split: if_splits)

lemma clickNext_step:
  "currentStep (clickNext s) \<noteq> currentStep s \<Longrightarrow>
     (currentStep s = 1 \<and> jobName (formData s) \<noteq> [] \<and> currentStep (clickNext s) = 2)
     \<or> (currentStep s = 2 \<and> currentStep (clickNext s) = 3)"
  by (auto simp: clickNext_def setCurrentStep_frame handleNext_simp
        split: if_splits option.splits job_type.splits)

lemma advance_guarded:
  assumes "0 \<le> currentStep s"
  shows "(currentStep s \<le> 0 \<and> 0 < currentStep (dispatch e s) \<longrightarrow>
            jobType s \<noteq> None \<and> currentStep (dispatch e s) = 1)
       \<and> (currentStep s \<le> 1 \<and> 1 < currentStep (dispatch e s) \<longrightarrow>
            currentStep s = 1 \<and> jobName (formData s) \<noteq> [] \<and> currentStep (dispatch e s) = 2)"
proof (cases e)
  case ClickContinue
  then show ?thesis using clickContinue_step[of s] assms by auto
next
  case ClickNext
  then show ?thesis using clickNext_step[of s] assms by auto
next
  case ClickPrevious
  then show ?thesis using clickPrevious_step[of s] assms by auto
qed (auto simp: currentStep_unchanged currentStep_unchanged_molecule)

text \<open>
  Claim C4. In every state the wizard can reach, \<open>step\<close> lies between 0 and 3; \<open>step\<close>
  is past step 0 only with a job type selected, and an event moves it past step 0 only
  from a state whose job type is not null; \<open>step\<close> is past the basic-info step only with
  a non-empty job name, and an event moves it past the basic-info step only from a state
  at that step whose job name is not empty.
\<close>

theorem step_range_and_gates:
  assumes "reachable s"
  shows "0 \<le> currentStep s \<and> currentStep s \<le> 3
       \<and> (0 < currentStep s \<longrightarrow> jobType s \<noteq> None)
       \<and> (1 < currentStep s \<longrightarrow> jobName (formData s) \<noteq> [])
       \<and> (currentStep s \<le> 0 \<and> 0 < currentStep (dispatch e s) \<longrightarrow>
             jobType s \<noteq> None \<and> currentStep (dispatch e s) = 1)
       \<and> (currentStep s \<le> 1 \<and> 1 < currentStep (dispatch e s) \<longrightarrow>
             currentStep s = 1 \<and> jobName (formData s) \<noteq> [] \<and> currentStep (dispatch e s) = 2)"
proof -
  have inv: "wizard_inv s"
    using assms by (rule reachable_inv)
  then have "0 \<le> currentStep s"
    by (simp add: wizard_inv_def)
  from advance_guarded[OF this, of e] inv show ?thesis
    by (simp add: wizard_inv_def)
qed

theorem step_range_and_gates_witness:
  "reachable typeSelected \<and> currentStep typeSelected = 0
   \<and> currentStep (dispatch ClickContinue typeSelected) = 1 \<and> jobType typeSelected \<noteq> None
   \<and> reachable nameEntered \<and> currentStep nameEntered = 1
   \<and> currentStep (dispatch ClickNext nameEntered) = 2 \<and> jobName (formData nameEntered) \<noteq> []"
proof -
  have r1: "reachable typeSelected" and r2: "reachable nameEntered"
    unfolding typeSelected_def nameEntered_def by (rule reachable_run)+
  have a: "currentStep typeSelected = 0" "currentStep (dispatch ClickContinue typeSelected) = 1"
    by (simp_all add: typeSelected_def ui_defs)
  have b: "currentStep nameEntered = 1" "currentStep (dispatch ClickNext nameEntered) = 2"
    by (simp_all add: nameEntered_def ui_defs)
  show ?thesis
    using step_range_and_gates[OF r1, of ClickContinue] step_range_and_gates[OF r2, of ClickNext]
      r1 r2 a b
    by simp
qed

section \<open>Switching the input method\<close>

text \<open>
  Claim C10. Switching the input method of the molecule panel discards the data of the
  other method: switching to \<open>custom\<close> sets \<open>species\<close> to null, switching to
  \<open>species\<close> sets \<open>chainA\<close>, \<open>chainB\<close> and \<open>chainC\<close> to null, and either switch
  disables the crosslinks and resets the crosslink fields. So a species does not survive
  a round trip through \<open>custom\<close>, nor the chains a round trip through \<open>species\<close>.
\<close>

theorem inputMethod_switch_discards_other_method:
  "get (fst (handleInputMethodChange ''custom'' fd p)) ''species'' = Null
   \<and> get (fst (handleInputMethodChange ''species'' fd p)) ''chainA'' = Null
   \<and> get (fst (handleInputMethodChange ''species'' fd p)) ''chainB'' = Null
   \<and> get (fst (handleInputMethodChange ''species'' fd p)) ''chainC'' = Null
   \<and> get (fst (handleInputMethodChange v fd p)) ''enableCrosslinks'' = Bool False
   \<and> get (fst (handleInputMethodChange v fd p)) ''nTerminalType'' = Str ''NONE''
   \<and> get (fst (handleInputMethodChange v fd p)) ''cTerminalType'' = Str ''NONE''
   \<and> get (fst (handleInputMethodChange v fd p)) ''nTerminalPosition'' = Null
   \<and> get (fst (handleInputMethodChange v fd p)) ''cTerminalPosition'' = Null
   \<and> get (fst (handleInputMethodChange ''species''
             (fst (handleInputMethodChange ''custom'' fd p)) p')) ''species'' = Null
   \<and> get (fst (handleInputMethodChange ''custom''
             (fst (handleInputMethodChange ''species'' fd p)) p')) ''chainA'' = Null
   \<and> get (fst (handleInputMethodChange ''custom''
             (fst (handleInputMethodChange ''species'' fd p)) p')) ''chainB'' = Null
   \<and> get (fst (handleInputMethodChange ''custom''
             (fst (handleInputMethodChange ''species'' fd p)) p')) ''chainC'' = Null"
  by (simp add: handleInputMethodChange_def get_def)

section \<open>Custom chains\<close>

lemma validateSequence_iff:
  "validateSequence v \<longleftrightarrow>
     (\<exists>sq. v = Str sq \<and> 950 \<le> length sq \<and> length sq \<le> 1150 \<and> set sq \<subseteq> set alphabet)"
  by (cases v) (auto simp: list_all_iff)

lemma editChain_stores_upper:
  assumes "moleculeForm s = Some p" "inputMethod p \<noteq> Str ''species''" "chain \<in> set sequences"
    "toUpperCaseGives typed u"
  shows "get (parameters (formData (editChain chain typed u s))) chain = Str u"
  using assms by (simp add: editChain_def setParameters_def get_def)

lemma all_valid_advances:
  assumes "moleculeForm s = Some p" "inputMethod p \<noteq> Str ''species''"
    "\<forall>chain\<in>set sequences. validateSequence (get (parameters (formData s)) chain)"
    "\<not> truthy (get (parameters (formData s)) ''enableCrosslinks'')"
  shows "currentStep (clickNext s) = 3"
proof -
  have "firstInvalid (parameters (formData s)) sequences = None"
    using assms(3) by (simp add: firstInvalid_None list_all_iff)
  then have "MoleculeParams_handleSubmit (parameters (formData s)) (inputMethod p) = None"
    using assms(2,4) by (simp add: MoleculeParams_handleSubmit_def)
  moreover have "currentStep s = 2" "jobType s = Some molecule"
    using moleculeForm_Some[OF assms(1)] by simp_all
  ultimately show ?thesis
    using assms(1) by (simp add: clickNext_def setCurrentStep_frame handleNext_simp)
qed

lemma toUpperCase_alphabetLower: "map toUpperCaseChar alphabetLower = ''ABCDEFGHIKLMNOPQRSTUVWXYZ''"
  by code_simp

lemma toUpperCase_alphabet: "map toUpperCaseChar alphabet = alphabet"
  by code_simp

lemma ascii_alphabets: "ascii (alphabet @ alphabetLower)"
  by code_simp

lemma ascii_in_alphabets:
  assumes "set t \<subseteq> set alphabet \<union> set alphabetLower"
  shows "ascii t"
  using assms ascii_alphabets unfolding ascii_def list_all_iff by auto

lemma toUpperCase_in_alphabet:
  assumes "set t \<subseteq> set alphabet \<union> set alphabetLower"
  shows "set (toUpperCaseASCII t) \<subseteq> set alphabet"
proof -
  have upper: "toUpperCaseChar c \<in> set alphabet" if "c \<in> set alphabet" for c
  proof -
    have "map toUpperCaseChar alphabet = map (\<lambda>x. x) alphabet"
      by (simp add: toUpperCase_alphabet)
    then have "toUpperCaseChar c = c"
      using that unfolding map_eq_conv by blast
    then show ?thesis using that by simp
  qed
  have lower: "toUpperCaseChar c \<in> set alphabet" if "c \<in> set alphabetLower" for c
  proof -
    have "toUpperCaseChar c \<in> set (map toUpperCaseChar alphabetLower)"
      using that by simp
    moreover have "set ''ABCDEFGHIKLMNOPQRSTUVWXYZ'' \<subseteq> set alphabet"
      by (simp add: alphabet_def)
    ultimately show ?thesis
      unfolding toUpperCase_alphabetLower by (rule subsetD[rotated])
  qed
  show ?thesis
    using assms upper lower by (auto simp: toUpperCaseASCII_def)
qed

lemma toUpperCaseGives_ascii:
  assumes "toUpperCaseGives typed u" "ascii typed"
  shows "u = toUpperCaseASCII typed" "length u = length typed"
  using assms by (simp_all add: toUpperCaseGives_def toUpperCaseASCII_def)

text \<open>
  Claim C6. In the custom input method of the molecule panel, a chain is valid exactly
  when it is a string of 950 to 1150 characters, all of them from the alphabet
  \<open>ABCDEFGHIKLMNOPQRSTUVWXYZ-\<close>; what is stored for a chain field is the upper-case
  form of what is typed (for ASCII text: a to z replaced by A to Z, of the same length, so
  letters of the alphabet typed in lower case end up in the alphabet); if any of the three
  chains is not valid, Next is rejected: the step and the form data are unchanged and the
  panel's error is \<open>Invalid sequence for\<close> that chain, \<open>Length must be between 950-1150
  and contain only valid amino acids\<close>; and if all three are valid (crosslinks being off)
  Next moves on to the review step.
\<close>

theorem custom_chains_validated:
  "(validateSequence v \<longleftrightarrow>
      (\<exists>sq. v = Str sq \<and> 950 \<le> length sq \<and> length sq \<le> 1150 \<and> set sq \<subseteq> set alphabet))
   \<and> (moleculeForm s = Some p \<and> inputMethod p \<noteq> Str ''species'' \<and> chain \<in> set sequences
        \<and> toUpperCaseGives typed u \<longrightarrow>
        get (parameters (formData (editChain chain typed u s))) chain = Str u)
   \<and> (toUpperCaseGives typed u \<and> ascii typed \<longrightarrow>
        u = toUpperCaseASCII typed \<and> length u = length typed)
   \<and> (toUpperCaseGives typed u \<and> set typed \<subseteq> set alphabet \<union> set alphabetLower \<longrightarrow>
        set u \<subseteq> set alphabet)
   \<and> (moleculeForm s = Some p \<and> inputMethod p \<noteq> Str ''species'' \<and> chain \<in> set sequences
        \<and> \<not> validateSequence (get (parameters (formData s)) chain) \<longrightarrow>
        currentStep (clickNext s) = currentStep s \<and> formData (clickNext s) = formData s
        \<and> (\<exists>bad\<in>set sequences.
              panel (clickNext s)
                = Some (p\<lparr>panel_error :=
                    Some (''Invalid sequence for '' @ bad
                      @ ''. Length must be between 950-1150 and contain only valid amino acids.'')\<rparr>)))
   \<and> (moleculeForm s = Some p \<and> inputMethod p \<noteq> Str ''species''
        \<and> (\<forall>c\<in>set sequences. validateSequence (get (parameters (formData s)) c))
        \<and> \<not> truthy (get (parameters (formData s)) ''enableCrosslinks'') \<longrightarrow>
        currentStep (clickNext s) = 3)"
proof -
  have rejected: "currentStep (clickNext s) = currentStep s \<and> formData (clickNext s) = formData s
        \<and> (\<exists>bad\<in>set sequences.
              panel (clickNext s)
                = Some (p\<lparr>panel_error :=
                    Some (''Invalid sequence for '' @ bad
                      @ ''. Length must be between 950-1150 and contain only valid amino acids.'')\<rparr>))"
    if h: "moleculeForm s = Some p" "inputMethod p \<noteq> Str ''species''" "chain \<in> set sequences"
      "\<not> validateSequence (get (parameters (formData s)) chain)"
  proof -
    obtain bad where "bad \<in> set sequences"
      "clickNext s = s\<lparr>panel := Some (p\<lparr>panel_error := Some (chainError bad)\<rparr>)\<rparr>"
      using invalid_chain_rejected[OF h] by blast
    then show ?thesis by (auto simp: chainError_def)
  qed
  have upper: "set u \<subseteq> set alphabet"
    if "toUpperCaseGives typed u" "set typed \<subseteq> set alphabet \<union> set alphabetLower"
    using toUpperCaseGives_ascii(1)[OF that(1) ascii_in_alphabets[OF that(2)]]
      toUpperCase_in_alphabet[OF that(2)] by simp
  show ?thesis
    using validateSequence_iff[of v] editChain_stores_upper[of s p chain typed u] rejected
      all_valid_advances[of s p] toUpperCaseGives_ascii[of typed u] upper
    by blast
qed

lemma customEntered_state:
  "customEntered =
     \<lparr>currentStep = 2, jobType = Some molecule,
      formData = \<lparr>jobName = ''Run1'', description = [],
        parameters = (fst (handleInputMethodChange ''custom'' Map.empty undefined))
          (''chainA'' \<mapsto> Str (replicate 1000 (CHR ''A'')),
           ''chainB'' \<mapsto> Str (replicate 950 (CHR ''G'')),
           ''chainC'' \<mapsto> Str (replicate 1150 (CHR ''-'')))\<rparr>,
      error = None, isSubmitting = False,
      panel = Some \<lparr>panel_error = None, isLoading = False,
                    availableSpecies = [''homo_sapiens'', ''rattus_norvegicus''],
                    crosslinkData = body_crosslinks referenceData,
                    inputMethod = Str ''custom''\<rparr>,
      submitted = [], inFlight = 0, location = None\<rparr>"
  unfolding customEntered_def run_append run_toMoleculeForm
  by (simp add: chooseInputMethod_def editChain_def moleculeForm_def formShown_def
        handleInputMethodChange_def setParameters_def sequences_def toUpperCaseGives_examples)

theorem custom_chains_validated_witness:
  "moleculeForm scenarioB = Some (the (panel scenarioB))
   \<and> inputMethod (the (panel scenarioB)) \<noteq> Str ''species''
   \<and> ''chainA'' \<in> set sequences
   \<and> \<not> validateSequence (get (parameters (formData scenarioB)) ''chainA'')
   \<and> currentStep (clickNext scenarioB) = currentStep scenarioB
   \<and> (\<exists>bad\<in>set sequences.
         panel (clickNext scenarioB)
           = Some ((the (panel scenarioB))\<lparr>panel_error :=
               Some (''Invalid sequence for '' @ bad
                 @ ''. Length must be between 950-1150 and contain only valid amino acids.'')\<rparr>))
   \<and> toUpperCaseGives ''acgt'' ''ACGT'' \<and> ascii ''acgt''
   \<and> get (parameters (formData (editChain ''chainA'' ''acgt'' ''ACGT'' scenarioB))) ''chainA''
       = Str ''ACGT''
   \<and> length ''ACGT'' = length ''acgt''
   \<and> set ''acgt'' \<subseteq> set alphabet \<union> set alphabetLower
   \<and> set ''ACGT'' \<subseteq> set alphabet
   \<and> moleculeForm customEntered = Some (the (panel customEntered))
   \<and> inputMethod (the (panel customEntered)) \<noteq> Str ''species''
   \<and> validateSequence (get (parameters (formData customEntered)) ''chainA'')
   \<and> validateSequence (get (parameters (formData customEntered)) ''chainB'')
   \<and> validateSequence (get (parameters (formData customEntered)) ''chainC'')
   \<and> \<not> truthy (get (parameters (formData customEntered)) ''enableCrosslinks'')
   \<and> currentStep (clickNext customEntered) = 3"
proof -
  have fB: "moleculeForm scenarioB = Some (the (panel scenarioB))"
    and mB: "inputMethod (the (panel scenarioB)) \<noteq> Str ''species''"
    by (simp_all add: scenarioB_state moleculeForm_def formShown_def)
  have cA: "''chainA'' \<in> set sequences"
    by (simp add: sequences_def)
  have bad: "\<not> validateSequence (get (parameters (formData scenarioB)) ''chainA'')"
    by (simp add: scenarioB_state get_def)
  have fC: "moleculeForm customEntered = Some (the (panel customEntered))"
    and mC: "inputMethod (the (panel customEntered)) \<noteq> Str ''species''"
    by (simp_all add: customEntered_state moleculeForm_def formShown_def)
  have good: "validateSequence (get (parameters (formData customEntered)) ''chainA'')"
    "validateSequence (get (parameters (formData customEntered)) ''chainB'')"
    "validateSequence (get (parameters (formData customEntered)) ''chainC'')"
    by (simp_all add: customEntered_state get_def alphabet_def list_all_iff)
  then have all: "\<forall>c\<in>set sequences. validateSequence (get (parameters (formData customEntered)) c)"
    by (simp add: sequences_def)
  have off: "\<not> truthy (get (parameters (formData customEntered)) ''enableCrosslinks'')"
    by (simp add: customEntered_state get_def handleInputMethodChange_def)
  have asc: "ascii ''acgt''"
    by code_simp
  have up: "toUpperCaseGives ''acgt'' ''ACGT''"
    using toUpperCaseChar_examples(3) by (simp add: toUpperCaseGives_def)
  have low: "set ''acgt'' \<subseteq> set alphabet \<union> set alphabetLower"
    by (simp add: alphabetLower_def)
  show ?thesis
    using custom_chains_validated[of "Str []" scenarioB "the (panel scenarioB)" "''chainA''"
        "''acgt''" "''ACGT''"]
      custom_chains_validated[of "Str []" customEntered "the (panel customEntered)" "''chainA''"
        "''acgt''" "''ACGT''"]
      fB mB cA bad fC mC good all off asc up low
    by (simp add: toUpperCaseChar_examples alphabet_def)
qed

section \<open>Failed and repeated submissions\<close>

text \<open>
  What the \<open>catch\<close> block of \<open>handleSubmit\<close> does, for every outcome that reaches it:
  \<open>step\<close>, \<open>jobType\<close>, \<open>formData\<close> and the location stay as they are, the error is
  set to the message of what was thrown, the in-flight flag is cleared, and a second click
  on Submit sends the same job type and form data.
\<close>

lemma catch_block_preserves_data:
  assumes "0 < inFlight s" "reachesCatch r"
  shows "currentStep (dispatch (SubmitSettled r) s) = currentStep s
       \<and> jobType (dispatch (SubmitSettled r) s) = jobType s
       \<and> formData (dispatch (SubmitSettled r) s) = formData s
       \<and> location (dispatch (SubmitSettled r) s) = location s
       \<and> (\<exists>m. error (dispatch (SubmitSettled r) s) = Some m)
       \<and> (r = FetchResponse st (JsonObject d) \<and> get d ''message'' = Str m \<and> m \<noteq> [] \<longrightarrow>
            error (dispatch (SubmitSettled r) s) = Some m)
       \<and> (r = FetchRejected m \<longrightarrow> error (dispatch (SubmitSettled r) s) = Some m)
       \<and> \<not> isSubmitting (dispatch (SubmitSettled r) s)
       \<and> \<not> submitDisabled (dispatch (SubmitSettled r) s)
       \<and> submitLabel (dispatch (SubmitSettled r) s) = ''Submit Job''
       \<and> (currentStep s = 3 \<longrightarrow>
            submitted (clickSubmit (dispatch (SubmitSettled r) s))
              = (jobType s, formData s) # submitted s)"
proof (cases r)
  case (FetchRejected x)
  then show ?thesis
    using assms
    by (simp add: submitSettled_def submitSettle_def submitDisabled_def submitLabel_def
          clickSubmit_def submitStart_def)
next
  case (FetchResponse code j)
  then show ?thesis
    using assms
    by (cases j)
       (auto simp: submitSettled_def submitSettle_def submitDisabled_def submitLabel_def
          clickSubmit_def submitStart_def or_else_def)
qed

text \<open>
  Claim C7. The claim says that when a submission fails, by a transport failure or by an
  error response, the wizard keeps \<open>step\<close>, \<open>jobType\<close> and \<open>formData\<close>, shows the
  server's error message and enables Submit again. At the error response with HTTP status
  200 and the body \<open>{status: "error", message}\<close> the handler does not reach its
  \<open>catch\<close> block: it shows no message and navigates away from the wizard, where the
  same body with HTTP status 500 is shown and the data kept. At an error response whose
  body cannot be read, the message shown is the parser's.
\<close>

theorem error_response_leaves_wizard:
  "currentStep reviewSubmitting = 3 \<and> 0 < inFlight reviewSubmitting
   \<and> \<not> reachesCatch businessError
   \<and> error (dispatch (SubmitSettled businessError) reviewSubmitting) = None
   \<and> location (dispatch (SubmitSettled businessError) reviewSubmitting)
       = Some ''/jobs/status/undefined''
   \<and> error (dispatch (SubmitSettled serverError) reviewSubmitting) = Some ''Queue unavailable''
   \<and> location (dispatch (SubmitSettled serverError) reviewSubmitting) = None
   \<and> formData (dispatch (SubmitSettled serverError) reviewSubmitting)
       = formData reviewSubmitting
   \<and> error (dispatch (SubmitSettled (FetchResponse 500 (JsonThrows ''Unexpected token'')))
        reviewSubmitting) = Some ''Unexpected token''"
  by (simp add: reviewSubmitting_state businessError_def serverError_def submitSettled_def
        submitSettle_def ok_def get_def or_else_def)

text \<open>
  Claim C8. From the review step with no request outstanding, two clicks on Submit with
  the request still outstanding send exactly one request: after the first click the
  in-flight flag is set, the button is disabled and its label is \<open>Submitting...\<close>, and the
  second click changes nothing. In every reachable state at most one submission request
  is outstanding, and while one is, a click on Submit does nothing.
\<close>

theorem double_submit_sends_one_request:
  assumes "reachable s"
  shows "inFlight s \<le> 1
       \<and> (0 < inFlight s \<longrightarrow> submitDisabled s \<and> submitLabel s = ''Submitting...''
            \<and> clickSubmit s = s)
       \<and> (currentStep s = 3 \<and> \<not> isSubmitting s \<longrightarrow>
            submitted (clickSubmit s) = (jobType s, formData s) # submitted s
            \<and> inFlight (clickSubmit s) = 1
            \<and> submitDisabled (clickSubmit s) \<and> submitLabel (clickSubmit s) = ''Submitting...''
            \<and> clickSubmit (clickSubmit s) = clickSubmit s
            \<and> length (submitted (clickSubmit (clickSubmit s))) = length (submitted s) + 1)"
proof -
  have inv: "inFlight s = (if isSubmitting s then 1 else 0)"
    using reachable_inv[OF assms] by (simp add: wizard_inv_def)
  show ?thesis
    using inv
    by (auto simp: clickSubmit_def submitDisabled_def submitLabel_def submitStart_def
          split: if_splits)
qed

theorem double_submit_sends_one_request_witness:
  "reachable (run toReview) \<and> currentStep (run toReview) = 3 \<and> \<not> isSubmitting (run toReview)
   \<and> submitted (run toReview) = []
   \<and> length (submitted (clickSubmit (clickSubmit (run toReview)))) = 1
   \<and> submitLabel (clickSubmit (run toReview)) = ''Submitting...''
   \<and> inFlight (clickSubmit (run toReview)) = 1"
proof -
  have a: "currentStep (run toReview) = 3" "\<not> isSubmitting (run toReview)"
    "submitted (run toReview) = []"
    by (simp_all add: run_toReview)
  show ?thesis
    using double_submit_sends_one_request[OF reachable_run[of toReview]] a reachable_run[of toReview]
    by simp
qed

section \<open>Back-navigation\<close>

lemma clickPrevious_frame:
  "formData (clickPrevious s) = formData s" "jobType (clickPrevious s) = jobType s"
  by (simp_all add: clickPrevious_def setCurrentStep_frame split: option.splits job_type.splits)

lemma previous_when_shown:
  assumes "previousShown s"
  shows "clickPrevious s = setCurrentStep handlePrevious s"
proof (cases "currentStep s = 2")
  case False
  then show ?thesis
    using assms by (simp add: previousShown_def clickPrevious_def)
next
  case True
  then have "panelButtonsShown s"
    using assms by (simp add: previousShown_def)
  then show ?thesis
    using True
    by (auto simp: panelButtonsShown_def clickPrevious_def split: option.splits job_type.splits)
qed

lemma setParameters_frame:
  "currentStep (setParameters params s) = currentStep s"
  "jobType (setParameters params s) = jobType s"
  "panel (setParameters params s) = panel s"
  by (simp_all add: setParameters_def)

lemma moleculeForm_setParameters: "moleculeForm (setParameters params s) = moleculeForm s"
  by (simp add: moleculeForm_def setParameters_frame split: option.splits)

lemma shown_after_setParameters:
  assumes "moleculeForm s = Some p"
  shows "currentStep (setParameters params s) = 2 \<and> previousShown (setParameters params s)"
proof -
  have "currentStep s = 2" "jobType s = Some molecule"
    using moleculeForm_Some[OF assms] by simp_all
  then show ?thesis
    using assms
    by (simp add: previousShown_def panelButtonsShown_def moleculeForm_setParameters
          setParameters_frame)
qed

lemma crosslinkSelects_form: "crosslinkSelects s t = Some td \<Longrightarrow> \<exists>p. moleculeForm s = Some p"
  by (auto simp: crosslinkSelects_def split: option.splits)

lemma edit_keeps_buttons:
  assumes "fieldEdit e" "dispatch e s \<noteq> s"
  shows "(currentStep (dispatch e s) = 1 \<or> currentStep (dispatch e s) = 2)
       \<and> previousShown (dispatch e s)"
proof (cases e)
  case (EditBasicInfo f v)
  then show ?thesis
    using assms by (auto simp: editBasicInfo_def previousShown_def split: if_splits)
next
  case (ChooseInputMethod v)
  then obtain p where p: "moleculeForm s = Some p"
    using assms by (auto simp: chooseInputMethod_def split: option.splits)
  have "currentStep s = 2" "jobType s = Some molecule" "formShown p"
    using moleculeForm_Some[OF p] by simp_all
  then show ?thesis
    using ChooseInputMethod p
    by (simp add: chooseInputMethod_def handleInputMethodChange_def setParameters_def
          previousShown_def panelButtonsShown_def moleculeForm_def formShown_def)
next
  case (ChooseSpecies v)
  then show ?thesis
    using assms shown_after_setParameters
    by (auto simp: chooseSpecies_def split: option.splits if_splits)
next
  case (EditChain c v u)
  then show ?thesis
    using assms shown_after_setParameters
    by (auto simp: editChain_def split: option.splits if_splits)
next
  case (ToggleCrosslinks b)
  then show ?thesis
    using assms shown_after_setParameters
    by (auto simp: toggleCrosslinks_def split: option.splits if_splits)
next
  case (ChooseTerminalType t v)
  then show ?thesis
    using assms shown_after_setParameters
    by (auto simp: chooseTerminalType_def split: option.splits if_splits
          dest!: crosslinkSelects_form)
next
  case (ChooseTerminalPosition t v)
  then show ?thesis
    using assms shown_after_setParameters
    by (auto simp: chooseTerminalPosition_def Let_def split: option.splits if_splits
          dest!: crosslinkSelects_form)
qed (use assms in simp_all)

lemma back_then_forward:
  assumes "wizard_inv s" "previousShown s" "currentStep s = 1 \<or> currentStep s = 2"
  shows "currentStep (clickPrevious s) = currentStep s - 1
       \<and> currentStep (clickForward (clickPrevious s)) = currentStep s
       \<and> formData (clickForward (clickPrevious s)) = formData s
       \<and> jobType (clickForward (clickPrevious s)) = jobType s"
proof -
  let ?b = "clickPrevious s"
  have b: "?b = setCurrentStep handlePrevious s"
    using assms(2) by (rule previous_when_shown)
  have step_b: "currentStep ?b = currentStep s - 1"
    using assms(3) by (auto simp: b setCurrentStep_frame handlePrevious_def)
  have frame_b: "formData ?b = formData s" "jobType ?b = jobType s"
    by (simp_all add: clickPrevious_frame)
  have gate: "jobType s \<noteq> None" "currentStep s = 2 \<longrightarrow> jobName (formData s) \<noteq> []"
    using assms(1,3) by (auto simp: wizard_inv_def)
  have fwd: "clickForward ?b = setCurrentStep handleNext ?b"
  proof (cases "currentStep s = 1")
    case True
    then have "currentStep ?b = 0" using step_b by simp
    then show ?thesis
      using gate frame_b by (simp add: forward_at_0)
  next
    case False
    then have "currentStep s = 2" using assms(3) by simp
    then have "currentStep ?b = 1" using step_b by simp
    then show ?thesis
      using gate frame_b \<open>currentStep s = 2\<close> by (simp add: forward_at_1)
  qed
  show ?thesis
    using step_b frame_b assms(3)
    by (auto simp: fwd setCurrentStep_frame handleNext_simp)
qed

text \<open>
  Claim C9, amended. For every step k > 0 and every field edit that took effect at step
  k, the Previous button is rendered, and going back to step k-1 and forward again
  returns to step k with \<open>formData\<close> (the edited value included) and \<open>jobType\<close>
  unchanged. A click on Previous never changes \<open>jobType\<close> or \<open>formData\<close>, and it
  moves \<open>step\<close> back by one wherever the current step renders the button: at the
  basic-info and review steps, in the fibril panels, and in the molecule panel while it
  shows its form.
\<close>

theorem back_navigation_preserves_data:
  assumes "reachable s"
  shows "formData (clickPrevious s) = formData s \<and> jobType (clickPrevious s) = jobType s
       \<and> (previousShown s \<longrightarrow> currentStep (clickPrevious s) = currentStep s - 1)
       \<and> (fieldEdit e \<and> dispatch e s \<noteq> s \<longrightarrow>
            0 < currentStep (dispatch e s) \<and> previousShown (dispatch e s)
            \<and> currentStep (clickPrevious (dispatch e s)) = currentStep (dispatch e s) - 1
            \<and> currentStep (clickForward (clickPrevious (dispatch e s)))
                = currentStep (dispatch e s)
            \<and> formData (clickForward (clickPrevious (dispatch e s))) = formData (dispatch e s)
            \<and> jobType (clickForward (clickPrevious (dispatch e s))) = jobType (dispatch e s))"
proof -
  have inv: "wizard_inv s"
    using assms by (rule reachable_inv)
  have prev: "currentStep (clickPrevious s) = currentStep s - 1" if "previousShown s"
    using inv that
    by (auto simp: previous_when_shown setCurrentStep_frame handlePrevious_def wizard_inv_def
          previousShown_def)
  have trip: "0 < currentStep (dispatch e s) \<and> previousShown (dispatch e s)
            \<and> currentStep (clickPrevious (dispatch e s)) = currentStep (dispatch e s) - 1
            \<and> currentStep (clickForward (clickPrevious (dispatch e s)))
                = currentStep (dispatch e s)
            \<and> formData (clickForward (clickPrevious (dispatch e s))) = formData (dispatch e s)
            \<and> jobType (clickForward (clickPrevious (dispatch e s))) = jobType (dispatch e s)"
    if h: "fieldEdit e" "dispatch e s \<noteq> s"
  proof -
    have inv': "wizard_inv (dispatch e s)"
      using inv by (rule inv_dispatch)
    have k: "currentStep (dispatch e s) = 1 \<or> currentStep (dispatch e s) = 2"
      and shown: "previousShown (dispatch e s)"
      using edit_keeps_buttons[OF h] by simp_all
    show ?thesis
      using back_then_forward[OF inv' shown k] k shown by auto
  qed
  show ?thesis
    using prev trip by (simp add: clickPrevious_frame)
qed

theorem back_navigation_preserves_data_witness:
  "reachable (run toMoleculeForm) \<and> previousShown (run toMoleculeForm)
   \<and> currentStep (clickPrevious (run toMoleculeForm)) = 1
   \<and> fieldEdit (ChooseSpecies ''homo_sapiens'')
   \<and> dispatch (ChooseSpecies ''homo_sapiens'') (run toMoleculeForm) \<noteq> run toMoleculeForm
   \<and> currentStep speciesChosen = 2
   \<and> currentStep (clickPrevious speciesChosen) = 1
   \<and> currentStep (clickForward (clickPrevious speciesChosen)) = 2
   \<and> get (parameters (formData (clickForward (clickPrevious speciesChosen)))) ''species''
       = Str ''homo_sapiens''"
proof -
  have r: "reachable (run toMoleculeForm)"
    by (rule reachable_run)
  have shown: "previousShown (run toMoleculeForm)"
    by (simp add: run_toMoleculeForm previousShown_def panelButtonsShown_def moleculeForm_def
          formShown_def)
  have sp: "get (parameters (formData speciesChosen)) ''species'' = Str ''homo_sapiens''"
    "get (parameters (formData (run toMoleculeForm))) ''species'' = Undefined"
    "currentStep speciesChosen = 2" "currentStep (run toMoleculeForm) = 2"
    by (simp_all add: speciesChosen_def run_toMoleculeForm chooseSpecies_def moleculeForm_def
          formShown_def setParameters_def get_def)
  have ne: "dispatch (ChooseSpecies ''homo_sapiens'') (run toMoleculeForm) \<noteq> run toMoleculeForm"
    using sp(1,2) unfolding speciesChosen_def by auto
  show ?thesis
    using back_navigation_preserves_data[OF r, of "ChooseSpecies ''homo_sapiens''"] shown sp ne r
    unfolding speciesChosen_def by simp
qed

text \<open>
  The claim C9 as stated (backward transition is always permitted) fails in the molecule
  panel when the loading of its reference data has failed: the panel renders its error box
  only, there is no Previous button, and \<open>step\<close> stays 2.
\<close>

theorem back_blocked_by_panel_error:
  "reachable loadFailed \<and> currentStep loadFailed = 2
   \<and> map_option panel_error (panel loadFailed)
       = Some (Some ''Failed to load required data: Failed to fetch'')
   \<and> \<not> previousShown loadFailed
   \<and> currentStep (dispatch ClickPrevious loadFailed) = 2"
proof -
  have "reachable loadFailed"
    unfolding loadFailed_def by (rule reachable_run)
  moreover have "currentStep loadFailed = 2
    \<and> map_option panel_error (panel loadFailed)
        = Some (Some ''Failed to load required data: Failed to fetch'')
    \<and> \<not> previousShown loadFailed
    \<and> currentStep (dispatch ClickPrevious loadFailed) = 2"
    by code_simp
  ultimately show ?thesis by simp
qed

end
